theory Spec2Isabelle
  imports Complex_Main "HOL-Library.Word"
begin

section \<open>The quadrotor flight controller \<open>fly.c\<close>\<close>

text \<open>
  The C program keeps its state in process-global records that an interrupt routine
  (\<open>flight_core\<close>) and several threads read and write. The embedding passes these records
  explicitly. C \<open>float\<close> values are modelled as real numbers: the theorems below are
  about the control logic over exact arithmetic, not about rounding or infinities. NaN
  is modelled where it decides a property: the output path of \<open>flight_core\<close> is given a
  second time over floats that may be NaN (\<open>cfloat\<close>).
\<close>

subsection \<open>Constants\<close>

definition DT :: real where "DT = 0.005"
definition MAX_YAW_COMPONENT :: real where "MAX_YAW_COMPONENT = 0.21"
definition MAX_THRUST_COMPONENT :: real where "MAX_THRUST_COMPONENT = 0.8"
definition MAX_ROLL_COMPONENT :: real where "MAX_ROLL_COMPONENT = 0.2"
definition MAX_PITCH_COMPONENT :: real where "MAX_PITCH_COMPONENT = 0.2"
definition INT_CUTOFF_TH :: real where "INT_CUTOFF_TH = 0.3"
definition YAW_CUTOFF_TH :: real where "YAW_CUTOFF_TH = 0.1"
definition ARM_TIP_THRESHOLD :: real where "ARM_TIP_THRESHOLD = 0.2"
definition LAND_SATURATION :: real where "LAND_SATURATION = 0.05"
definition TIP_THRESHOLD :: real where "TIP_THRESHOLD = 1.5"
definition DSM2_LAND_TIMEOUT :: real where "DSM2_LAND_TIMEOUT = 0.3"
definition DSM2_DISARM_TIMEOUT :: real where "DSM2_DISARM_TIMEOUT = 5.0"
definition EMERGENCY_LAND_THR :: real where "EMERGENCY_LAND_THR = 0.15"

subsection \<open>Type definitions\<close>

datatype flight_mode_t =
  EMERGENCY_KILL | EMERGENCY_LAND | USER_ATTITUDE | USER_LOITER
  | USER_POSITION_CARTESIAN | USER_POSITION_RADIAL | TARGET_HOLD

datatype core_mode_t = DISARMED | ATTITUDE | POSITION

text \<open>
  Modelled from the spec: the \<open>discrete_filter\<close> type and the functions \<open>generatePID\<close>,
  \<open>zeroFilter\<close> and \<open>saturateFilter\<close> of \<open>filter_lib.h\<close>, which is not among the sources.
  The spec describes a PID controller with gains, a derivative time constant and a
  timestep, that carries its history, its last input, its current output and a
  saturation window. \<open>generatePID\<close> returns a filter with cleared history, \<open>zeroFilter\<close>
  clears all history including \<open>current_output\<close>, and \<open>saturateFilter\<close> clamps
  \<open>current_output\<close> in place and records whether a bound was active (the anti-windup
  freeze). The difference equation of \<open>marchFilter\<close> is given neither by the spec nor by
  the sources, so it is a parameter of the model (see \<open>platform_t\<close>).
\<close>

record discrete_filter =
  kp :: real
  ki :: real
  kd :: real
  tau :: real
  dt :: real
  inputs :: "real list"
  outputs :: "real list"
  last_input :: real
  current_output :: real
  saturation_min :: real
  saturation_max :: real
  saturation_flag :: bool

definition generatePID :: "real \<Rightarrow> real \<Rightarrow> real \<Rightarrow> real \<Rightarrow> real \<Rightarrow> discrete_filter" where
  "generatePID p i d tf ts =
     \<lparr>kp = p, ki = i, kd = d, tau = tf, dt = ts,
      inputs = [0, 0, 0], outputs = [0, 0, 0],
      last_input = 0, current_output = 0,
      saturation_min = 0, saturation_max = 0, saturation_flag = False\<rparr>"

definition zeroFilter :: "discrete_filter \<Rightarrow> discrete_filter" where
  "zeroFilter f =
     f\<lparr>inputs := map (\<lambda>_. 0) (inputs f), outputs := map (\<lambda>_. 0) (outputs f),
       last_input := 0, current_output := 0\<rparr>"

definition saturateFilter :: "discrete_filter \<Rightarrow> real \<Rightarrow> real \<Rightarrow> discrete_filter" where
  "saturateFilter f lo hi =
     (if current_output f > hi
      then f\<lparr>saturation_min := lo, saturation_max := hi,
             current_output := hi, saturation_flag := True\<rparr>
      else if current_output f < lo
      then f\<lparr>saturation_min := lo, saturation_max := hi,
             current_output := lo, saturation_flag := True\<rparr>
      else f\<lparr>saturation_min := lo, saturation_max := hi, saturation_flag := False\<rparr>)"

text \<open>The state of a filter is zero when its history, last input and output are all 0.\<close>

definition filter_is_zero :: "discrete_filter \<Rightarrow> bool" where
  "filter_is_zero f \<longleftrightarrow>
     list_all (\<lambda>x. x = 0) (inputs f) \<and> list_all (\<lambda>x. x = 0) (outputs f)
     \<and> last_input f = 0 \<and> current_output f = 0"

record core_setpoint_t =
  core_mode :: core_mode_t
  throttle :: real
  roll_sp :: real
  pitch_sp :: real
  yaw_rate :: real
  altitude_sp :: real
  position_X :: real
  position_Y :: real
  yaw_sp :: real

text \<open>
  \<open>control_loops\<close> is an \<open>unsigned long\<close>, 32 bits on the 32-bit ARM target of the
  cape. \<open>num_yaw_spins\<close> is an \<open>int\<close> that moves by one per crossing of the yaw
  discontinuity; it is modelled as an unbounded integer. The arrays \<open>control_u[4]\<close> and
  \<open>esc_out[4]\<close> are lists, of length 4 in every state of the program.
\<close>

record core_state_t =
  control_loops :: "32 word"
  altitude :: real
  roll :: real
  pitch :: real
  yaw :: real
  last_yaw :: real
  dAltitude :: real
  dRoll :: real
  dPitch :: real
  dYaw :: real
  v_batt :: real
  positionX :: real
  positionY :: real
  alt_err :: real
  dRoll_err :: real
  dPitch_err :: real
  yaw_err :: real
  roll_ctrl :: discrete_filter
  pitch_ctrl :: discrete_filter
  yaw_ctrl :: discrete_filter
  alt_err_integrator :: real
  dRoll_err_integrator :: real
  dPitch_err_integrator :: real
  imu_roll_err :: real
  imu_pitch_err :: real
  yaw_err_integrator :: real
  control_u :: "real list"
  esc_out :: "real list"
  num_yaw_spins :: int
  imu_yaw_on_takeoff :: real

record user_interface_t =
  flight_mode :: flight_mode_t
  throttle_stick :: real
  yaw_stick :: real
  roll_stick :: real
  pitch_stick :: real
  kill_switch :: int

text \<open>
  \<open>core_config_t\<close> is declared in \<open>flight_core_config.h\<close>, which is not among the sources;
  the record has the fields that \<open>fly.c\<close> reads. \<open>core_log_entry_t\<close> comes from
  \<open>flight_core_logger.h\<close> in the same way and has the fields \<open>flight_core\<close> fills in.
\<close>

record core_config_t =
  Droll_KP :: real
  Droll_KI :: real
  Droll_KD :: real
  Dpitch_KP :: real
  Dpitch_KI :: real
  Dpitch_KD :: real
  yaw_KP :: real
  yaw_KI :: real
  yaw_KD :: real
  idle_speed :: real
  roll_rate_per_rad :: real
  pitch_rate_per_rad :: real
  max_roll_setpoint :: real
  max_pitch_setpoint :: real
  max_yaw_rate :: real

record core_log_entry_t =
  log_num_loops :: "32 word"
  log_roll :: real
  log_pitch :: real
  log_yaw :: real
  log_dRoll :: real
  log_dPitch :: real
  log_dYaw :: real
  log_u :: "real list"
  log_esc :: "real list"
  log_v_batt :: real

text \<open>
  One reading of the IMU: the fused Euler angles and the raw gyro counts (\<open>short\<close>
  integers) of \<open>mpu\<close>, by axis.
\<close>

record mpudata_t =
  fusedEuler_X :: real
  fusedEuler_Y :: real
  fusedEuler_Z :: real
  rawGyro_X :: int
  rawGyro_Y :: int
  rawGyro_Z :: int

text \<open>
  What \<open>fly.c\<close> takes from the cape library and the filter library without defining it:
  the macros \<open>PI\<close>, \<open>GYRO_FSR\<close> and \<open>DEGREE_TO_RAD\<close> of \<open>robotics_cape.h\<close>, the function
  \<open>marchFilter\<close>, and \<open>load_core_config\<close>, which reads the settings file.
\<close>

record platform_t =
  PI :: real
  GYRO_FSR :: real
  DEGREE_TO_RAD :: real
  marchFilter :: "discrete_filter \<Rightarrow> real \<Rightarrow> discrete_filter"
  load_core_config :: "core_config_t \<Rightarrow> core_config_t"

text \<open>
  The global variables, the static \<open>previous_core_mode\<close> of \<open>flight_core\<close>, and what the
  program has sent to the outside: the pulses given to \<open>send_servo_pulse_normalized\<close>
  (channel and normalized width, oldest first), the entries given to \<open>log_core_data\<close>,
  and the two LEDs.
\<close>

record fly_state =
  core_config :: core_config_t
  core_setpoint :: core_setpoint_t
  core_state :: core_state_t
  user_interface :: user_interface_t
  previous_core_mode :: core_mode_t
  pulses :: "(nat \<times> real) list"
  core_log :: "core_log_entry_t list"
  red_led :: bool
  grn_led :: bool

subsection \<open>\<open>initialize_filters\<close> and \<open>disarm\<close>\<close>


definition disarm :: "fly_state \<Rightarrow> fly_state" where
  "disarm g =
     g\<lparr>core_setpoint := (core_setpoint g)\<lparr>core_mode := DISARMED\<rparr>,
       red_led := True, grn_led := False\<rparr>"

subsection \<open>\<open>flight_core\<close>: the control loop\<close>

text \<open>Estimate of the system state, run whether the core is armed or not.\<close>

definition estimate_state :: "platform_t \<Rightarrow> mpudata_t \<Rightarrow> fly_state \<Rightarrow> fly_state" where
  "estimate_state env mpu g =
     (let cs = core_state g;
          cs = cs\<lparr>roll := - (fusedEuler_Y mpu - imu_roll_err cs)\<rparr>;
          cs = cs\<lparr>pitch := fusedEuler_X mpu - imu_pitch_err cs\<rparr>;
          cs = cs\<lparr>dRoll := real_of_int (rawGyro_Y mpu) * GYRO_FSR env * DEGREE_TO_RAD env / 32767\<rparr>;
          cs = cs\<lparr>dPitch := real_of_int (rawGyro_X mpu) * GYRO_FSR env * DEGREE_TO_RAD env / 32767\<rparr>;
          cs = cs\<lparr>dYaw := real_of_int (rawGyro_Z mpu) * GYRO_FSR env * DEGREE_TO_RAD env / 32767\<rparr>;
          cs = (if previous_core_mode g = DISARMED \<and> core_mode (core_setpoint g) \<noteq> DISARMED
                then cs\<lparr>num_yaw_spins := 0, imu_yaw_on_takeoff := fusedEuler_Z mpu\<rparr>
                else cs);
          new_yaw = - (fusedEuler_Z mpu - imu_yaw_on_takeoff cs)
                      + real_of_int (num_yaw_spins cs * 2) * PI env;
          cs = (if new_yaw - last_yaw cs > 6 then cs\<lparr>num_yaw_spins := num_yaw_spins cs - 1\<rparr>
                else if new_yaw - last_yaw cs < - 6 then cs\<lparr>num_yaw_spins := num_yaw_spins cs + 1\<rparr>
                else cs);
          cs = cs\<lparr>last_yaw := yaw cs\<rparr>;
          cs = cs\<lparr>yaw := - (fusedEuler_Z mpu - imu_yaw_on_takeoff cs)
                             + real_of_int (num_yaw_spins cs * 2) * PI env\<rparr>
      in g\<lparr>core_state := cs\<rparr>)"

text \<open>The \<open>ATTITUDE\<close> case of the mode switch: the yaw setpoint follows the yaw rate when flying.\<close>

definition attitude_setpoint :: "fly_state \<Rightarrow> fly_state" where
  "attitude_setpoint g =
     (let sp = core_setpoint g
      in if throttle sp > YAW_CUTOFF_TH
         then g\<lparr>core_setpoint := sp\<lparr>yaw_sp := yaw_sp sp + DT * yaw_rate sp\<rparr>\<rparr>
         else g)"

text \<open>The \<open>DISARMED\<close> case of the mode switch, after which \<open>flight_core\<close> returns.\<close>

definition disarmed_reset :: "fly_state \<Rightarrow> fly_state" where
  "disarmed_reset g =
     (let cs = core_state g;
          cs = cs\<lparr>dRoll_err_integrator := 0\<rparr>;
          cs = cs\<lparr>dPitch_err_integrator := 0\<rparr>;
          cs = cs\<lparr>yaw_err_integrator := 0\<rparr>;
          cs = cs\<lparr>roll_ctrl := zeroFilter (roll_ctrl cs)\<rparr>;
          cs = cs\<lparr>pitch_ctrl := zeroFilter (pitch_ctrl cs)\<rparr>;
          g = g\<lparr>core_setpoint := (core_setpoint g)\<lparr>yaw_sp := 0\<rparr>\<rparr>;
          cs = cs\<lparr>esc_out := [0, 0, 0, 0]\<rparr>
      in g\<lparr>core_state := cs, previous_core_mode := DISARMED\<rparr>)"

text \<open>Throttle controller: \<open>u[0]\<close>, compensated for the roll and pitch angles.\<close>

definition throttle_controller :: "fly_state \<Rightarrow> real" where
  "throttle_controller g =
     (let throttle_compensation = 1 / cos (roll (core_state g));
          throttle_compensation = throttle_compensation * (1 / cos (pitch (core_state g)));
          thr = throttle (core_setpoint g) * (MAX_THRUST_COMPONENT - idle_speed (core_config g))
                  + idle_speed (core_config g)
      in throttle_compensation * thr)"

text \<open>Roll and pitch controllers; \<open>u0\<close> is \<open>u[0]\<close>. The outputs \<open>u[1]\<close> and \<open>u[2]\<close> are read
  from the filters afterwards.\<close>

definition roll_pitch_controllers :: "platform_t \<Rightarrow> real \<Rightarrow> fly_state \<Rightarrow> fly_state" where
  "roll_pitch_controllers env u0 g =
     (let sp = core_setpoint g; cfg = core_config g; cs = core_state g;
          dRoll_setpoint = (roll_sp sp - roll cs) * roll_rate_per_rad cfg;
          dPitch_setpoint = (pitch_sp sp - pitch cs) * pitch_rate_per_rad cfg;
          cs = cs\<lparr>dRoll_err := dRoll_setpoint - dRoll cs\<rparr>;
          cs = cs\<lparr>dPitch_err := dPitch_setpoint - dPitch cs\<rparr>;
          cs = (if u0 > INT_CUTOFF_TH
                then cs\<lparr>dRoll_err_integrator := dRoll_err_integrator cs + dRoll_err cs * DT,
                        dPitch_err_integrator := dPitch_err_integrator cs + dPitch_err cs * DT\<rparr>
                else cs);
          cs = cs\<lparr>roll_ctrl := marchFilter env (roll_ctrl cs) (dRoll_err cs)\<rparr>;
          cs = cs\<lparr>pitch_ctrl := marchFilter env (pitch_ctrl cs) (dPitch_err cs)\<rparr>;
          cs = (if throttle sp < 0.1
                then cs\<lparr>roll_ctrl := saturateFilter (roll_ctrl cs) (- LAND_SATURATION) LAND_SATURATION,
                        pitch_ctrl := saturateFilter (pitch_ctrl cs) (- LAND_SATURATION) LAND_SATURATION\<rparr>
                else cs\<lparr>roll_ctrl := saturateFilter (roll_ctrl cs) (- MAX_ROLL_COMPONENT) MAX_ROLL_COMPONENT,
                        pitch_ctrl := saturateFilter (pitch_ctrl cs) (- MAX_PITCH_COMPONENT) MAX_PITCH_COMPONENT\<rparr>)
      in g\<lparr>core_state := cs\<rparr>)"

definition yaw_controller :: "platform_t \<Rightarrow> real \<Rightarrow> fly_state \<Rightarrow> fly_state" where
  "yaw_controller env u0 g =
     (let sp = core_setpoint g; cs = core_state g;
          cs = cs\<lparr>yaw_err := yaw_sp sp - yaw cs\<rparr>;
          cs = (if u0 > INT_CUTOFF_TH
                then cs\<lparr>yaw_err_integrator := yaw_err_integrator cs + yaw_err cs * DT\<rparr>
                else cs);
          cs = cs\<lparr>yaw_ctrl := marchFilter env (yaw_ctrl cs) (yaw_err cs)\<rparr>;
          cs = (if throttle sp < 0.1
                then cs\<lparr>yaw_ctrl := saturateFilter (yaw_ctrl cs) (- LAND_SATURATION) LAND_SATURATION\<rparr>
                else cs\<lparr>yaw_ctrl := saturateFilter (yaw_ctrl cs) (- MAX_YAW_COMPONENT) MAX_YAW_COMPONENT\<rparr>)
      in g\<lparr>core_state := cs\<rparr>)"

text \<open>Mixing for the X layout: \<open>new_esc\<close> from \<open>u\<close>.\<close>

definition mixing :: "real list \<Rightarrow> real list" where
  "mixing u =
     [u ! 0 - u ! 1 + u ! 2 - u ! 3,
      u ! 0 + u ! 1 - u ! 2 - u ! 3,
      u ! 0 + u ! 1 + u ! 2 + u ! 3,
      u ! 0 - u ! 1 - u ! 2 + u ! 3]"

text \<open>
  The loop that finds the control output limits, started in the source with
  \<open>largest_value = 0\<close> and \<open>smallest_value = 1\<close>; the pair is (largest, smallest).
\<close>

fun find_limits :: "real list \<Rightarrow> real \<times> real \<Rightarrow> real \<times> real" where
  "find_limits [] (largest_value, smallest_value) = (largest_value, smallest_value)"
| "find_limits (x # xs) (largest_value, smallest_value) =
     find_limits xs (if x > largest_value then x else largest_value,
                     if x < smallest_value then x else smallest_value)"

text \<open>If upper saturation would have occurred, all outputs are reduced evenly.\<close>

definition prevent_saturation :: "real list \<Rightarrow> real list" where
  "prevent_saturation new_esc =
     (let largest_value = fst (find_limits new_esc (0, 1))
      in if largest_value > 1
         then map (\<lambda>x. x - (largest_value - 1)) new_esc
         else new_esc)"

text \<open>The clamp of the output loop on a number; \<open>clamp_esc_c\<close> below is the same clamp
  on a float that may be NaN.\<close>

definition clamp_esc :: "real \<Rightarrow> real" where
  "clamp_esc x = (if x > 1 then 1 else if x < 0 then 0 else x)"

text \<open>
  The two output loops over \<open>i = 0 .. 3\<close>. When the previous mode was \<open>DISARMED\<close> the
  minimum pulse goes to every channel and nothing is recorded. Otherwise each output is
  clamped, sent, and recorded with \<open>u[i]\<close> in the core state.
\<close>

fun send_minimum_pulses :: "nat list \<Rightarrow> fly_state \<Rightarrow> fly_state" where
  "send_minimum_pulses [] g = g"
| "send_minimum_pulses (i # is) g =
     send_minimum_pulses is (g\<lparr>pulses := pulses g @ [(i + 1, 0)]\<rparr>)"

fun send_esc_outputs :: "nat list \<Rightarrow> real list \<Rightarrow> real list \<Rightarrow> fly_state \<Rightarrow> fly_state" where
  "send_esc_outputs [] new_esc u g = g"
| "send_esc_outputs (i # is) new_esc u g =
     (let v = clamp_esc (new_esc ! i);
          g = g\<lparr>pulses := pulses g @ [(i + 1, v)]\<rparr>;
          cs = core_state g;
          cs = cs\<lparr>esc_out := (esc_out cs)[i := v]\<rparr>;
          cs = cs\<lparr>control_u := (control_u cs)[i := u ! i]\<rparr>
      in send_esc_outputs is new_esc u (g\<lparr>core_state := cs\<rparr>))"

definition new_log_entry :: "core_state_t \<Rightarrow> core_log_entry_t" where
  "new_log_entry cs =
     \<lparr>log_num_loops = control_loops cs,
      log_roll = roll cs, log_pitch = pitch cs, log_yaw = yaw cs,
      log_dRoll = dRoll cs, log_dPitch = dPitch cs, log_dYaw = dYaw cs,
      log_u = [control_u cs ! 0, control_u cs ! 1, control_u cs ! 2, control_u cs ! 3],
      log_esc = [esc_out cs ! 0, esc_out cs ! 1, esc_out cs ! 2, esc_out cs ! 3],
      log_v_batt = v_batt cs\<rparr>"

text \<open>The feedback controllers, the mixer and the outputs: what follows the mode switch.\<close>

definition run_controllers :: "platform_t \<Rightarrow> fly_state \<Rightarrow> fly_state" where
  "run_controllers env g =
     (let u0 = throttle_controller g;
          g = roll_pitch_controllers env u0 g;
          u1 = current_output (roll_ctrl (core_state g));
          u2 = current_output (pitch_ctrl (core_state g));
          g = yaw_controller env u0 g;
          u3 = current_output (yaw_ctrl (core_state g));
          u = [u0, u1, u2, u3];
          new_esc = prevent_saturation (mixing u);
          g = (if previous_core_mode g = DISARMED
               then send_minimum_pulses [0, 1, 2, 3] g
               else send_esc_outputs [0, 1, 2, 3] new_esc u g);
          g = g\<lparr>core_log := core_log g @ [new_log_entry (core_state g)]\<rparr>;
          g = g\<lparr>previous_core_mode := core_mode (core_setpoint g)\<rparr>
      in g\<lparr>core_state := (core_state g)\<lparr>control_loops := control_loops (core_state g) + 1\<rparr>\<rparr>)"

text \<open>
  One call of the interrupt routine. \<open>mpu_read\<close> is \<open>None\<close> when \<open>mpu9150_read\<close>
  reports no new data, and then nothing happens.
\<close>

definition flight_core :: "platform_t \<Rightarrow> mpudata_t option \<Rightarrow> fly_state \<Rightarrow> fly_state" where
  "flight_core env mpu_read g =
     (case mpu_read of
        None \<Rightarrow> g
      | Some mpu \<Rightarrow>
          (let g = estimate_state env mpu g
           in case core_mode (core_setpoint g) of
                POSITION \<Rightarrow> run_controllers env g
              | ATTITUDE \<Rightarrow> run_controllers env (attitude_setpoint g)
              | DISARMED \<Rightarrow> disarmed_reset g))"

subsection \<open>The output path in C floats\<close>

text \<open>
  A C \<open>float\<close> holds a number or NaN. Arithmetic on NaN gives NaN, and every comparison
  with NaN is false. \<open>cfloat\<close> models this much of it: rounding and the infinities are
  left out. The definitions below are the throttle controller, the mixer, the headroom
  step and the clamp of \<open>flight_core\<close> again, over \<open>cfloat\<close>. \<open>esc_outputs_c u\<close> are the
  values that a cycle sends to the four channels and records in \<open>esc_out\<close>, from the
  control components \<open>u\<close>, when the previous mode was not \<open>DISARMED\<close>.
\<close>

datatype cfloat = Num real | NaN

fun c_add :: "cfloat \<Rightarrow> cfloat \<Rightarrow> cfloat" where
  "c_add (Num a) (Num b) = Num (a + b)"
| "c_add _ _ = NaN"

fun c_sub :: "cfloat \<Rightarrow> cfloat \<Rightarrow> cfloat" where
  "c_sub (Num a) (Num b) = Num (a - b)"
| "c_sub _ _ = NaN"

fun c_mul :: "cfloat \<Rightarrow> cfloat \<Rightarrow> cfloat" where
  "c_mul (Num a) (Num b) = Num (a * b)"
| "c_mul _ _ = NaN"

fun c_div :: "cfloat \<Rightarrow> cfloat \<Rightarrow> cfloat" where
  "c_div (Num a) (Num b) = Num (a / b)"
| "c_div _ _ = NaN"

fun c_cos :: "cfloat \<Rightarrow> cfloat" where
  "c_cos (Num a) = Num (cos a)"
| "c_cos NaN = NaN"



definition throttle_controller_c :: "cfloat \<Rightarrow> cfloat \<Rightarrow> cfloat \<Rightarrow> cfloat \<Rightarrow> cfloat" where
  "throttle_controller_c roll_c pitch_c throttle_c idle_speed_c =
     (let throttle_compensation = c_div (Num 1) (c_cos roll_c);
          throttle_compensation = c_mul throttle_compensation (c_div (Num 1) (c_cos pitch_c));
          thr = c_add (c_mul throttle_c (c_sub (Num MAX_THRUST_COMPONENT) idle_speed_c))
                  idle_speed_c
      in c_mul throttle_compensation thr)"






subsection \<open>\<open>wait_for_arming_sequence\<close>\<close>

text \<open>
  Modelled from the spec: the lifecycle value returned by \<open>get_state\<close> of
  \<open>robotics_cape.h\<close>, which is not among the sources; the spec gives it three values.
\<close>

datatype state_t = STARTING | RUNNING | EXITING

text \<open>
  The function blocks in polling loops on variables that the interrupt routine and the
  radio thread write. An observation is what it reads at one polling instant: the roll
  and pitch of \<open>core_state\<close>, the kill switch and throttle stick of \<open>user_interface\<close>, and
  the lifecycle state. A loop test and the tests that follow it without a \<open>usleep\<close> in
  between read the same observation; each \<open>usleep\<close> moves on to the next one.
\<close>

record observation =
  obs_roll :: real
  obs_pitch :: real
  obs_kill_switch :: int
  obs_throttle_stick :: real
  obs_state :: state_t

definition tipped :: "observation \<Rightarrow> bool" where
  "tipped x \<longleftrightarrow> \<bar>obs_roll x\<bar> > ARM_TIP_THRESHOLD \<or> \<bar>obs_pitch x\<bar> > ARM_TIP_THRESHOLD"

text \<open>The five polling loops after the label \<open>START\<close>, and the test that follows them.\<close>

datatype arming_stage =
  WAIT_LEVEL | WAIT_KILL_SWITCH | WAIT_THROTTLE_DOWN | WAIT_THROTTLE_UP
  | WAIT_THROTTLE_DOWN_AGAIN | CHECK_LEVEL

fun loop_condition :: "arming_stage \<Rightarrow> observation \<Rightarrow> bool" where
  "loop_condition WAIT_LEVEL x = tipped x"
| "loop_condition WAIT_KILL_SWITCH x = (obs_kill_switch x \<noteq> 0)"
| "loop_condition WAIT_THROTTLE_DOWN x = (obs_throttle_stick x > - 0.9)"
| "loop_condition WAIT_THROTTLE_UP x = (obs_throttle_stick x < 0.9)"
| "loop_condition WAIT_THROTTLE_DOWN_AGAIN x = (obs_throttle_stick x > - 0.9)"
| "loop_condition CHECK_LEVEL x = False"

fun next_stage :: "arming_stage \<Rightarrow> arming_stage" where
  "next_stage WAIT_LEVEL = WAIT_KILL_SWITCH"
| "next_stage WAIT_KILL_SWITCH = WAIT_THROTTLE_DOWN"
| "next_stage WAIT_THROTTLE_DOWN = WAIT_THROTTLE_UP"
| "next_stage WAIT_THROTTLE_UP = WAIT_THROTTLE_DOWN_AGAIN"
| "next_stage WAIT_THROTTLE_DOWN_AGAIN = CHECK_LEVEL"
| "next_stage CHECK_LEVEL = CHECK_LEVEL"

text \<open>
  How the polling ends: \<open>ARMED\<close> when the code goes on to arm, \<open>ABORTED\<close> when it returns
  because the program is exiting. \<open>None\<close> means the function is still blocked when the
  observations run out.
\<close>

datatype arming_exit = ARMED | ABORTED

fun stage_rank :: "arming_stage \<Rightarrow> bool \<Rightarrow> nat" where
  "stage_rank WAIT_LEVEL t = (if t then 0 else 7)"
| "stage_rank WAIT_KILL_SWITCH t = 6"
| "stage_rank WAIT_THROTTLE_DOWN t = 5"
| "stage_rank WAIT_THROTTLE_UP t = 4"
| "stage_rank WAIT_THROTTLE_DOWN_AGAIN t = 3"
| "stage_rank CHECK_LEVEL t = 2"

function arming_poll :: "arming_stage \<Rightarrow> observation list \<Rightarrow> arming_exit option" where
  "arming_poll st [] = None"
| "arming_poll st (x # xs) =
     (if st = CHECK_LEVEL
      then (if tipped x then arming_poll WAIT_LEVEL (x # xs) else Some ARMED)
      else if loop_condition st x
      then (case xs of
              [] \<Rightarrow> None
            | y # ys \<Rightarrow> if obs_state y = EXITING then Some ABORTED else arming_poll st xs)
      else arming_poll (next_stage st) (x # xs))"
  by pat_completeness auto
termination
proof (relation "measure (\<lambda>(st, obs). 8 * length obs + stage_rank st (tipped (hd obs)))",
    goal_cases)
  case 1
  show ?case by simp
next
  case (2 st x xs)
  then show ?case by simp
next
  case (3 st x xs y ys)
  then show ?case by (cases st) simp_all
next
  case (4 st x xs)
  then show ?case by (cases st) simp_all
qed




subsection \<open>\<open>DSM2_watcher\<close>\<close>

text \<open>
  The locals of the radio thread, and what one pass of its loop reads from outside: the
  lifecycle state, the monotonic clock at the top of the loop, the result of
  \<open>is_new_dsm2_data\<close>, the clock read again when a frame has come, and the normalized
  channels. Times are in seconds.
\<close>

record dsm2_locals =
  using_dsm2 :: int
  last_dsm2_time :: real

record dsm2_poll =
  get_state :: state_t
  current_time :: real
  is_new_dsm2_data :: int
  new_data_time :: real
  get_dsm2_ch_normalized :: "nat \<Rightarrow> real"

definition DSM2_watcher_step ::
  "dsm2_poll \<Rightarrow> dsm2_locals \<times> fly_state \<Rightarrow> dsm2_locals \<times> fly_state" where
  "DSM2_watcher_step p = (\<lambda>(w, g).
     if is_new_dsm2_data p = 1
     then (let w = w\<lparr>using_dsm2 := 1\<rparr>;
               w = w\<lparr>last_dsm2_time := new_data_time p\<rparr>
           in if get_dsm2_ch_normalized p 5 < 0
              then (w, disarm (g\<lparr>user_interface := (user_interface g)\<lparr>kill_switch := 1\<rparr>\<rparr>))
              else (let ui = user_interface g;
                        ui = ui\<lparr>kill_switch := 0\<rparr>;
                        ui = ui\<lparr>throttle_stick := get_dsm2_ch_normalized p 1\<rparr>;
                        ui = ui\<lparr>roll_stick := - get_dsm2_ch_normalized p 2\<rparr>;
                        ui = ui\<lparr>pitch_stick := - get_dsm2_ch_normalized p 3\<rparr>;
                        ui = ui\<lparr>yaw_stick := get_dsm2_ch_normalized p 4\<rparr>;
                        ui = (if get_dsm2_ch_normalized p 6 > 0
                              then ui\<lparr>flight_mode := USER_ATTITUDE\<rparr>
                              else ui\<lparr>flight_mode := USER_ATTITUDE\<rparr>)
                    in (w, g\<lparr>user_interface := ui\<rparr>)))
     else if is_new_dsm2_data p = 0
     then (if using_dsm2 w \<noteq> 0
           then (let timeout_secs = current_time p - last_dsm2_time w
                 in if core_mode (core_setpoint g) \<noteq> DISARMED \<and> timeout_secs > DSM2_DISARM_TIMEOUT
                    then (w, disarm g)
                    else if flight_mode (user_interface g) \<noteq> EMERGENCY_LAND
                            \<and> timeout_secs > DSM2_LAND_TIMEOUT
                    then (w, g\<lparr>user_interface := (user_interface g)
                                 \<lparr>flight_mode := EMERGENCY_LAND, throttle_stick := - 1,
                                  roll_stick := 0, pitch_stick := 0, yaw_stick := 0\<rparr>\<rparr>)
                    else (w, g))
           else (w, g))
     else (w, g))"

text \<open>The loop of the thread over the passes it makes, until the program is exiting.\<close>

fun DSM2_watcher :: "dsm2_poll list \<Rightarrow> dsm2_locals \<times> fly_state \<Rightarrow> dsm2_locals \<times> fly_state" where
  "DSM2_watcher [] s = s"
| "DSM2_watcher (p # ps) s =
     (if get_state p = EXITING then s else DSM2_watcher ps (DSM2_watcher_step p s))"

subsection \<open>Auxiliary definitions\<close>

text \<open>The state that the controllers start from on an armed pass.\<close>

definition armed_input :: "platform_t \<Rightarrow> mpudata_t \<Rightarrow> fly_state \<Rightarrow> fly_state" where
  "armed_input env mpu g =
     (if core_mode (core_setpoint g) = ATTITUDE
      then attitude_setpoint (estimate_state env mpu g)
      else estimate_state env mpu g)"

subsection \<open>A test configuration\<close>

text \<open>
  Concrete values for the theorems that evaluate the code: the gains are pure P = 1 with
  I = D = 0, \<open>marchFilter\<close> is the proportional controller for those gains, the idle speed
  is 0.1 and the rate per radian is 4. \<open>example_state\<close> is an armed vehicle at rest with a
  roll setpoint of 0.1 rad at throttle 0.3; \<open>level_mpu\<close> is the reading of a level
  vehicle at rest.
\<close>

definition example_platform :: platform_t where
  "example_platform =
     \<lparr>PI = 3.14159265, GYRO_FSR = 2000, DEGREE_TO_RAD = 0.0174532925,
      marchFilter = (\<lambda>f e. f\<lparr>last_input := e, current_output := kp f * e\<rparr>),
      load_core_config = (\<lambda>c. c)\<rparr>"

definition example_config :: core_config_t where
  "example_config =
     \<lparr>Droll_KP = 1, Droll_KI = 0, Droll_KD = 0,
      Dpitch_KP = 1, Dpitch_KI = 0, Dpitch_KD = 0,
      yaw_KP = 1, yaw_KI = 0, yaw_KD = 0,
      idle_speed = 0.1, roll_rate_per_rad = 4, pitch_rate_per_rad = 4,
      max_roll_setpoint = 0.4, max_pitch_setpoint = 0.4, max_yaw_rate = 3\<rparr>"

definition example_setpoint :: core_setpoint_t where
  "example_setpoint =
     \<lparr>core_mode = ATTITUDE, throttle = 0.3, roll_sp = 0.1, pitch_sp = 0, yaw_rate = 0,
      altitude_sp = 0, position_X = 0, position_Y = 0, yaw_sp = 0\<rparr>"

definition example_core_state :: core_state_t where
  "example_core_state =
     \<lparr>control_loops = 0, altitude = 0, roll = 0, pitch = 0, yaw = 0, last_yaw = 0,
      dAltitude = 0, dRoll = 0, dPitch = 0, dYaw = 0, v_batt = 0,
      positionX = 0, positionY = 0,
      alt_err = 0, dRoll_err = 0, dPitch_err = 0, yaw_err = 0,
      roll_ctrl = generatePID 1 0 0 0.015 DT,
      pitch_ctrl = generatePID 1 0 0 0.015 DT,
      yaw_ctrl = generatePID 1 0 0 0.015 DT,
      alt_err_integrator = 0, dRoll_err_integrator = 0, dPitch_err_integrator = 0,
      imu_roll_err = 0, imu_pitch_err = 0, yaw_err_integrator = 0,
      control_u = [0, 0, 0, 0], esc_out = [0, 0, 0, 0],
      num_yaw_spins = 0, imu_yaw_on_takeoff = 0\<rparr>"

definition example_user_interface :: user_interface_t where
  "example_user_interface =
     \<lparr>flight_mode = USER_ATTITUDE, throttle_stick = - 0.4, yaw_stick = 0,
      roll_stick = 0.25, pitch_stick = 0, kill_switch = 0\<rparr>"

definition example_state :: fly_state where
  "example_state =
     \<lparr>core_config = example_config, core_setpoint = example_setpoint,
      core_state = example_core_state, user_interface = example_user_interface,
      previous_core_mode = ATTITUDE, pulses = [], core_log = [],
      red_led = False, grn_led = True\<rparr>"

definition level_mpu :: mpudata_t where
  "level_mpu = \<lparr>fusedEuler_X = 0, fusedEuler_Y = 0, fusedEuler_Z = 0,
                 rawGyro_X = 0, rawGyro_Y = 0, rawGyro_Z = 0\<rparr>"

text \<open>
  The vehicle after a flight in which the yaw controller has reached its saturation
  value, at the moment a kill switch has set the core mode to \<open>DISARMED\<close>.
\<close>

definition flown_yaw_ctrl :: discrete_filter where
  "flown_yaw_ctrl = (generatePID 1 0 0 0.015 DT)\<lparr>last_input := 0.21, current_output := 0.21\<rparr>"

definition killed_state :: fly_state where
  "killed_state =
     example_state\<lparr>core_setpoint := example_setpoint\<lparr>core_mode := DISARMED\<rparr>,
                   core_state := example_core_state\<lparr>yaw_ctrl := flown_yaw_ctrl\<rparr>\<rparr>"

text \<open>
  The vehicle on the ground after a flight, disarmed, with the outputs of its last
  armed cycle still in \<open>control_u\<close> and \<open>esc_out\<close>; and the same vehicle after one
  disarmed cycle and a re-arm.
\<close>

definition landed_state :: fly_state where
  "landed_state =
     example_state\<lparr>core_setpoint := example_setpoint\<lparr>core_mode := DISARMED\<rparr>,
                   core_state := example_core_state\<lparr>control_u := [0.45, 0.2, 0, 0],
                                                     esc_out := [0.25, 0.65, 0.65, 0.25]\<rparr>\<rparr>"

definition rearmed_state :: fly_state where
  "rearmed_state =
     (let g = flight_core example_platform (Some level_mpu) landed_state
      in g\<lparr>core_setpoint := (core_setpoint g)\<lparr>core_mode := ATTITUDE\<rparr>\<rparr>)"

text \<open>A landed vehicle with no idle speed and a roll command.\<close>

definition grounded_state :: fly_state where
  "grounded_state =
     example_state\<lparr>core_config := example_config\<lparr>idle_speed := 0\<rparr>,
                   core_setpoint := example_setpoint\<lparr>throttle := 0\<rparr>\<rparr>"

text \<open>
  Radio frames with the kill switch engaged and released, the locals of the radio thread
  after a first frame, a vehicle holding a heading of - 3.10 rad, and IMU readings on
  each side of the yaw discontinuity.
\<close>

definition kill_frame :: dsm2_poll where
  "kill_frame =
     \<lparr>get_state = RUNNING, current_time = 10, is_new_dsm2_data = 1, new_data_time = 10,
      get_dsm2_ch_normalized = (\<lambda>i. if i = 5 then - 1 else 0.5)\<rparr>"

definition fly_frame :: dsm2_poll where
  "fly_frame = kill_frame\<lparr>get_dsm2_ch_normalized := (\<lambda>i. if i = 5 then 1 else 0.5)\<rparr>"

definition example_locals :: dsm2_locals where
  "example_locals = \<lparr>using_dsm2 = 1, last_dsm2_time = 9.99\<rparr>"

definition heading_state :: fly_state where
  "heading_state =
     example_state\<lparr>core_state := example_core_state\<lparr>yaw := - 3.10, last_yaw := - 3.10\<rparr>\<rparr>"

definition mpu_before_wrap :: mpudata_t where
  "mpu_before_wrap = level_mpu\<lparr>fusedEuler_Z := 3.10\<rparr>"

definition mpu_after_wrap :: mpudata_t where
  "mpu_after_wrap = level_mpu\<lparr>fusedEuler_Z := - 3.10\<rparr>"

subsection \<open>Observations in order\<close>





text \<open>
  Observations of an arming: a level vehicle with the stick down, up and down again; the
  same with the vehicle rolled to 1 rad while the stick is up; and the same with the
  vehicle rolled to 1 rad when the stick comes down again, and level afterwards.
\<close>

definition level_observation :: observation where
  "level_observation =
     \<lparr>obs_roll = 0, obs_pitch = 0, obs_kill_switch = 0, obs_throttle_stick = - 1,
      obs_state = RUNNING\<rparr>"



definition restart_trace :: "observation list" where
  "restart_trace =
     [level_observation,
      level_observation\<lparr>obs_throttle_stick := 1\<rparr>,
      level_observation\<lparr>obs_roll := 1\<rparr>,
      level_observation]"

subsection \<open>Loss of signal\<close>

text \<open>
  \<open>timeout_secs\<close> is the time since the last frame at a pass of the radio thread, as the
  thread computes it. \<open>emergency_land\<close> is the state its landing branch leaves, and
  \<open>signal_lost_state e g\<close> is the state expected from \<open>g\<close> once the time since the last
  frame has reached \<open>e\<close>. \<open>signal_loss_polls\<close> are passes without a new frame at 0.01,
  0.31 and 5.01 s after the last frame of \<open>example_locals\<close>, and \<open>late_polls\<close> at 6 and
  6.01 s.
\<close>

definition emergency_land :: "fly_state \<Rightarrow> fly_state" where
  "emergency_land g =
     g\<lparr>user_interface := (user_interface g)
         \<lparr>flight_mode := EMERGENCY_LAND, throttle_stick := - 1,
          roll_stick := 0, pitch_stick := 0, yaw_stick := 0\<rparr>\<rparr>"

definition signal_lost_state :: "real \<Rightarrow> fly_state \<Rightarrow> fly_state" where
  "signal_lost_state e g =
     (if e \<le> DSM2_LAND_TIMEOUT then g
      else if e \<le> DSM2_DISARM_TIMEOUT \<or> core_mode (core_setpoint g) = DISARMED
      then emergency_land g
      else disarm (emergency_land g))"

definition timeout_secs :: "dsm2_locals \<Rightarrow> dsm2_poll \<Rightarrow> real" where
  "timeout_secs w p = current_time p - last_dsm2_time w"

definition quiet_poll :: "real \<Rightarrow> dsm2_poll" where
  "quiet_poll t =
     \<lparr>get_state = RUNNING, current_time = t, is_new_dsm2_data = 0, new_data_time = 0,
      get_dsm2_ch_normalized = (\<lambda>i. 0)\<rparr>"

definition signal_loss_polls :: "dsm2_poll list" where
  "signal_loss_polls = [quiet_poll 10, quiet_poll 10.3, quiet_poll 15]"

definition late_polls :: "dsm2_poll list" where
  "late_polls = [quiet_poll 15.99, quiet_poll 16]"

section \<open>Properties\<close>

lemmas fly_constants =
  DT_def MAX_YAW_COMPONENT_def MAX_THRUST_COMPONENT_def MAX_ROLL_COMPONENT_def
  MAX_PITCH_COMPONENT_def INT_CUTOFF_TH_def YAW_CUTOFF_TH_def ARM_TIP_THRESHOLD_def
  LAND_SATURATION_def TIP_THRESHOLD_def DSM2_LAND_TIMEOUT_def DSM2_DISARM_TIMEOUT_def
  EMERGENCY_LAND_THR_def

subsection \<open>The headroom step\<close>


lemma find_limits_largest:
  "fst (find_limits xs (l, s)) = fold max xs l"
  by (induction xs arbitrary: l s) (simp_all add: max_def)

lemma largest_value_Max:
  "fst (find_limits xs (0, 1)) = Max (insert 0 (set xs))"
proof -
  have "Max (set (0 # xs)) = fold max xs (0::real)" by (rule Max.set_eq_fold)
  then show ?thesis by (simp add: find_limits_largest)
qed

lemma prevent_saturation_above:
  assumes "xs \<noteq> []" "Max (set xs) > 1"
  shows "prevent_saturation xs = map (\<lambda>x. x - (Max (set xs) - 1)) xs"
proof -
  have "Max (insert 0 (set xs)) = max 0 (Max (set xs))"
    using assms(1) by simp
  also have "\<dots> = Max (set xs)" using assms(2) by simp
  finally show ?thesis using assms(2)
    by (simp add: prevent_saturation_def largest_value_Max)
qed

lemma prevent_saturation_below:
  assumes "xs \<noteq> []" "Max (set xs) \<le> 1"
  shows "prevent_saturation xs = xs"
proof -
  have "Max (insert 0 (set xs)) = max 0 (Max (set xs))"
    using assms(1) by simp
  also have "\<dots> \<le> 1" using assms(2) by simp
  finally have "Max (insert 0 (set xs)) \<le> 1" .
  then have "\<not> 1 < Max (insert 0 (set xs))" by (simp only: not_less)
  then show ?thesis
    unfolding prevent_saturation_def largest_value_Max Let_def by (simp only: if_False)
qed

lemma Max_shift:
  fixes xs :: "real list"
  assumes "xs \<noteq> []"
  shows "Max (set (map (\<lambda>x. x - c) xs)) = Max (set xs) - c"
proof -
  have "mono (\<lambda>x::real. x - c)" by (simp add: mono_def)
  then have "(\<lambda>x. x - c) (Max (set xs)) = Max ((\<lambda>x. x - c) ` set xs)"
    using assms by (intro mono_Max_commute) simp_all
  then show ?thesis by simp
qed

text \<open>
  Claim C3. In the headroom step, for every vector of mixed outputs: if its largest entry
  exceeds 1, the excess over 1 is subtracted from every entry, so that afterwards the
  largest entry is exactly 1 and the difference between any two entries is what it was;
  if its largest entry does not exceed 1, the vector is unchanged.
\<close>

theorem headroom_preservation:
  assumes "esc \<noteq> []"
  shows "(Max (set esc) > 1 \<longrightarrow>
            prevent_saturation esc = map (\<lambda>x. x - (Max (set esc) - 1)) esc
            \<and> Max (set (prevent_saturation esc)) = 1
            \<and> (\<forall>i < length esc. \<forall>j < length esc.
                 prevent_saturation esc ! i - prevent_saturation esc ! j = esc ! i - esc ! j))
         \<and> (Max (set esc) \<le> 1 \<longrightarrow> prevent_saturation esc = esc)"
proof (intro conjI impI)
  assume big: "Max (set esc) > 1"
  show eq: "prevent_saturation esc = map (\<lambda>x. x - (Max (set esc) - 1)) esc"
    by (rule prevent_saturation_above [OF assms big])
  show "Max (set (prevent_saturation esc)) = 1"
    unfolding eq using Max_shift [OF assms, of "Max (set esc) - 1"] by simp
  show "\<forall>i < length esc. \<forall>j < length esc.
          prevent_saturation esc ! i - prevent_saturation esc ! j = esc ! i - esc ! j"
    unfolding eq by simp
next
  assume "Max (set esc) \<le> 1"
  then show "prevent_saturation esc = esc"
    by (rule prevent_saturation_below [OF assms])
qed

theorem headroom_preservation_witness:
  "prevent_saturation [0.7, 0.9, 1.1, 0.9] = [0.6, 0.8, 1, 0.8]
   \<and> Max (set (prevent_saturation [0.7, 0.9, 1.1, 0.9])) = 1
   \<and> prevent_saturation [0.2, 0.5, 0.4, 0.3] = [0.2, 0.5, 0.4, 0.3]"
  using headroom_preservation [of "[0.7, 0.9, 1.1, 0.9]"]
    headroom_preservation [of "[0.2, 0.5, 0.4, 0.3]"]
  by simp

subsection \<open>The stages of \<open>flight_core\<close>\<close>

lemma send_minimum_pulses_all:
  "send_minimum_pulses [0, 1, 2, 3] g = g\<lparr>pulses := pulses g @ [(1, 0), (2, 0), (3, 0), (4, 0)]\<rparr>"
  by simp

lemma send_esc_outputs_pulses:
  "pulses (send_esc_outputs [0, 1, 2, 3] new_esc u g) =
     pulses g @ [(1, clamp_esc (new_esc ! 0)), (2, clamp_esc (new_esc ! 1)),
                 (3, clamp_esc (new_esc ! 2)), (4, clamp_esc (new_esc ! 3))]"
  by (simp add: Let_def)

lemma send_esc_outputs_esc_out:
  "esc_out (core_state (send_esc_outputs [0, 1, 2, 3] new_esc u g)) =
     (esc_out (core_state g))
       [0 := clamp_esc (new_esc ! 0), 1 := clamp_esc (new_esc ! 1),
        2 := clamp_esc (new_esc ! 2), 3 := clamp_esc (new_esc ! 3)]"
  by (simp add: Let_def)

lemma send_esc_outputs_control_u:
  "control_u (core_state (send_esc_outputs [0, 1, 2, 3] new_esc u g)) =
     (control_u (core_state g))[0 := u ! 0, 1 := u ! 1, 2 := u ! 2, 3 := u ! 3]"
  by (simp add: Let_def)

lemma list4_update_all:
  "length xs = 4 \<Longrightarrow> xs[0 := a, 1 := b, 2 := c, 3 := d] = [a, b, c, d]"
  by (cases xs; cases "tl xs"; cases "tl (tl xs)"; cases "tl (tl (tl xs))") auto

lemma list4_map:
  "length xs = 4 \<Longrightarrow> [f (xs ! 0), f (xs ! 1), f (xs ! 2), f (xs ! 3)] = map f xs"
  by (cases xs; cases "tl xs"; cases "tl (tl xs)"; cases "tl (tl (tl xs))") auto

lemma roll_pitch_frame:
  "pulses (roll_pitch_controllers env u0 g) = pulses g"
  "previous_core_mode (roll_pitch_controllers env u0 g) = previous_core_mode g"
  "core_setpoint (roll_pitch_controllers env u0 g) = core_setpoint g"
  "esc_out (core_state (roll_pitch_controllers env u0 g)) = esc_out (core_state g)"
  "control_u (core_state (roll_pitch_controllers env u0 g)) = control_u (core_state g)"
  "yaw_ctrl (core_state (roll_pitch_controllers env u0 g)) = yaw_ctrl (core_state g)"
  "yaw (core_state (roll_pitch_controllers env u0 g)) = yaw (core_state g)"
  "last_yaw (core_state (roll_pitch_controllers env u0 g)) = last_yaw (core_state g)"
  "num_yaw_spins (core_state (roll_pitch_controllers env u0 g)) = num_yaw_spins (core_state g)"
  "imu_yaw_on_takeoff (core_state (roll_pitch_controllers env u0 g)) = imu_yaw_on_takeoff (core_state g)"
  "yaw_err_integrator (core_state (roll_pitch_controllers env u0 g)) = yaw_err_integrator (core_state g)"
  by (simp_all add: roll_pitch_controllers_def Let_def)

lemma yaw_controller_frame:
  "pulses (yaw_controller env u0 g) = pulses g"
  "previous_core_mode (yaw_controller env u0 g) = previous_core_mode g"
  "core_setpoint (yaw_controller env u0 g) = core_setpoint g"
  "esc_out (core_state (yaw_controller env u0 g)) = esc_out (core_state g)"
  "control_u (core_state (yaw_controller env u0 g)) = control_u (core_state g)"
  "roll_ctrl (core_state (yaw_controller env u0 g)) = roll_ctrl (core_state g)"
  "pitch_ctrl (core_state (yaw_controller env u0 g)) = pitch_ctrl (core_state g)"
  "yaw (core_state (yaw_controller env u0 g)) = yaw (core_state g)"
  "last_yaw (core_state (yaw_controller env u0 g)) = last_yaw (core_state g)"
  "num_yaw_spins (core_state (yaw_controller env u0 g)) = num_yaw_spins (core_state g)"
  "imu_yaw_on_takeoff (core_state (yaw_controller env u0 g)) = imu_yaw_on_takeoff (core_state g)"
  "dRoll_err_integrator (core_state (yaw_controller env u0 g)) = dRoll_err_integrator (core_state g)"
  "dPitch_err_integrator (core_state (yaw_controller env u0 g)) = dPitch_err_integrator (core_state g)"
  by (simp_all add: yaw_controller_def Let_def)

text \<open>What a pass of the controllers sends and records, by the previous mode.\<close>

lemma run_controllers_first_armed:
  assumes "previous_core_mode g = DISARMED"
  shows "pulses (run_controllers env g) = pulses g @ [(1, 0), (2, 0), (3, 0), (4, 0)]"
    and "esc_out (core_state (run_controllers env g)) = esc_out (core_state g)"
    and "control_u (core_state (run_controllers env g)) = control_u (core_state g)"
  using assms
  by (simp_all add: run_controllers_def Let_def roll_pitch_frame yaw_controller_frame)

lemma run_controllers_armed:
  assumes "previous_core_mode g \<noteq> DISARMED"
    and "length (esc_out (core_state g)) = 4"
    and "length (control_u (core_state g)) = 4"
  shows "esc_out (core_state (run_controllers env g)) =
           map clamp_esc (prevent_saturation (mixing (control_u (core_state (run_controllers env g)))))"
    and "pulses (run_controllers env g) =
           pulses g @ zip [1, 2, 3, 4] (esc_out (core_state (run_controllers env g)))"
    and "hd (control_u (core_state (run_controllers env g))) = throttle_controller g"
    and "length (control_u (core_state (run_controllers env g))) = 4"
proof -
  define g2 where "g2 = yaw_controller env (throttle_controller g)
                          (roll_pitch_controllers env (throttle_controller g) g)"
  define u where "u = [throttle_controller g,
                       current_output (roll_ctrl (core_state g2)),
                       current_output (pitch_ctrl (core_state g2)),
                       current_output (yaw_ctrl (core_state g2))]"
  define new_esc where "new_esc = prevent_saturation (mixing u)"
  have prev: "previous_core_mode g2 \<noteq> DISARMED"
    using assms(1) by (simp add: g2_def roll_pitch_frame yaw_controller_frame)
  have len: "length (esc_out (core_state g2)) = 4" "length (control_u (core_state g2)) = 4"
    using assms(2,3) by (simp_all add: g2_def roll_pitch_frame yaw_controller_frame)
  have pul: "pulses g2 = pulses g"
    by (simp add: g2_def roll_pitch_frame yaw_controller_frame)
  have run: "run_controllers env g =
               (let g3 = send_esc_outputs [0, 1, 2, 3] new_esc u g2;
                    g4 = g3\<lparr>core_log := core_log g3 @ [new_log_entry (core_state g3)]\<rparr>;
                    g5 = g4\<lparr>previous_core_mode := core_mode (core_setpoint g4)\<rparr>
                in g5\<lparr>core_state := (core_state g5)\<lparr>control_loops := control_loops (core_state g5) + 1\<rparr>\<rparr>)"
    using prev
    by (simp add: run_controllers_def Let_def g2_def u_def new_esc_def
        roll_pitch_frame yaw_controller_frame)
  have ne4: "length new_esc = 4"
    by (simp add: new_esc_def prevent_saturation_def mixing_def Let_def)
  have u4: "length u = 4" by (simp add: u_def)
  have cu: "control_u (core_state (run_controllers env g)) = u"
  proof -
    have "control_u (core_state (run_controllers env g)) =
            (control_u (core_state g2))[0 := u ! 0, 1 := u ! 1, 2 := u ! 2, 3 := u ! 3]"
      using send_esc_outputs_control_u [of new_esc u g2]
      by (simp add: run Let_def del: send_esc_outputs.simps)
    also have "\<dots> = [u ! 0, u ! 1, u ! 2, u ! 3]" by (rule list4_update_all [OF len(2)])
    also have "\<dots> = u" by (simp add: u_def)
    finally show ?thesis .
  qed
  have eo: "esc_out (core_state (run_controllers env g)) = map clamp_esc new_esc"
  proof -
    have "esc_out (core_state (run_controllers env g)) =
            (esc_out (core_state g2))
              [0 := clamp_esc (new_esc ! 0), 1 := clamp_esc (new_esc ! 1),
               2 := clamp_esc (new_esc ! 2), 3 := clamp_esc (new_esc ! 3)]"
      using send_esc_outputs_esc_out [of new_esc u g2]
      by (simp add: run Let_def del: send_esc_outputs.simps)
    also have "\<dots> = [clamp_esc (new_esc ! 0), clamp_esc (new_esc ! 1),
                        clamp_esc (new_esc ! 2), clamp_esc (new_esc ! 3)]"
      by (rule list4_update_all [OF len(1)])
    also have "\<dots> = map clamp_esc new_esc"
      by (rule list4_map [OF ne4])
    finally show ?thesis .
  qed
  show "esc_out (core_state (run_controllers env g)) =
           map clamp_esc (prevent_saturation (mixing (control_u (core_state (run_controllers env g)))))"
    by (simp add: eo cu new_esc_def)
  have "pulses (run_controllers env g) =
          pulses g2 @ [(1, clamp_esc (new_esc ! 0)), (2, clamp_esc (new_esc ! 1)),
                       (3, clamp_esc (new_esc ! 2)), (4, clamp_esc (new_esc ! 3))]"
    using send_esc_outputs_pulses [of new_esc u g2]
    by (simp add: run Let_def del: send_esc_outputs.simps)
  also have "[(1, clamp_esc (new_esc ! 0)), (2, clamp_esc (new_esc ! 1)),
              (3, clamp_esc (new_esc ! 2)), (4, clamp_esc (new_esc ! 3))]
             = zip [1, 2, 3, 4] (map clamp_esc new_esc)"
    using ne4 by (cases new_esc; cases "tl new_esc"; cases "tl (tl new_esc)";
                  cases "tl (tl (tl new_esc))") auto
  finally show "pulses (run_controllers env g) =
           pulses g @ zip [1, 2, 3, 4] (esc_out (core_state (run_controllers env g)))"
    by (simp add: eo pul)
  show "hd (control_u (core_state (run_controllers env g))) = throttle_controller g"
    by (simp add: cu u_def)
  show "length (control_u (core_state (run_controllers env g))) = 4"
    by (simp add: cu u4)
qed

lemmas example_defs = example_platform_def example_config_def example_setpoint_def
  example_core_state_def example_user_interface_def example_state_def level_mpu_def


lemma estimate_state_frame:
  "pulses (estimate_state env mpu g) = pulses g"
  "previous_core_mode (estimate_state env mpu g) = previous_core_mode g"
  "core_setpoint (estimate_state env mpu g) = core_setpoint g"
  "core_config (estimate_state env mpu g) = core_config g"
  "esc_out (core_state (estimate_state env mpu g)) = esc_out (core_state g)"
  "control_u (core_state (estimate_state env mpu g)) = control_u (core_state g)"
  "roll_ctrl (core_state (estimate_state env mpu g)) = roll_ctrl (core_state g)"
  "pitch_ctrl (core_state (estimate_state env mpu g)) = pitch_ctrl (core_state g)"
  "yaw_ctrl (core_state (estimate_state env mpu g)) = yaw_ctrl (core_state g)"
  "dRoll_err_integrator (core_state (estimate_state env mpu g)) = dRoll_err_integrator (core_state g)"
  "dPitch_err_integrator (core_state (estimate_state env mpu g)) = dPitch_err_integrator (core_state g)"
  "yaw_err_integrator (core_state (estimate_state env mpu g)) = yaw_err_integrator (core_state g)"
  by (simp_all add: estimate_state_def Let_def)

lemma estimate_state_attitude:
  "roll (core_state (estimate_state env mpu g)) = - (fusedEuler_Y mpu - imu_roll_err (core_state g))"
  "pitch (core_state (estimate_state env mpu g)) = fusedEuler_X mpu - imu_pitch_err (core_state g)"
  "dRoll (core_state (estimate_state env mpu g)) =
     real_of_int (rawGyro_Y mpu) * GYRO_FSR env * DEGREE_TO_RAD env / 32767"
  "dPitch (core_state (estimate_state env mpu g)) =
     real_of_int (rawGyro_X mpu) * GYRO_FSR env * DEGREE_TO_RAD env / 32767"
  by (simp_all add: estimate_state_def Let_def)

lemma attitude_setpoint_frame:
  "pulses (attitude_setpoint g) = pulses g"
  "previous_core_mode (attitude_setpoint g) = previous_core_mode g"
  "core_state (attitude_setpoint g) = core_state g"
  "core_config (attitude_setpoint g) = core_config g"
  "core_mode (core_setpoint (attitude_setpoint g)) = core_mode (core_setpoint g)"
  "throttle (core_setpoint (attitude_setpoint g)) = throttle (core_setpoint g)"
  "roll_sp (core_setpoint (attitude_setpoint g)) = roll_sp (core_setpoint g)"
  "pitch_sp (core_setpoint (attitude_setpoint g)) = pitch_sp (core_setpoint g)"
  by (simp_all add: attitude_setpoint_def Let_def)

lemma flight_core_armed:
  assumes "core_mode (core_setpoint g) \<noteq> DISARMED"
  shows "flight_core env (Some mpu) g = run_controllers env (armed_input env mpu g)"
  using assms
  by (cases "core_mode (core_setpoint g)")
     (simp_all add: flight_core_def armed_input_def Let_def estimate_state_frame)

lemma flight_core_disarmed:
  assumes "core_mode (core_setpoint g) = DISARMED"
  shows "flight_core env (Some mpu) g = disarmed_reset (estimate_state env mpu g)"
  using assms by (simp add: flight_core_def Let_def estimate_state_frame)

lemma armed_input_frame:
  "pulses (armed_input env mpu g) = pulses g"
  "previous_core_mode (armed_input env mpu g) = previous_core_mode g"
  "core_config (armed_input env mpu g) = core_config g"
  "core_mode (core_setpoint (armed_input env mpu g)) = core_mode (core_setpoint g)"
  "throttle (core_setpoint (armed_input env mpu g)) = throttle (core_setpoint g)"
  "roll_sp (core_setpoint (armed_input env mpu g)) = roll_sp (core_setpoint g)"
  "pitch_sp (core_setpoint (armed_input env mpu g)) = pitch_sp (core_setpoint g)"
  "esc_out (core_state (armed_input env mpu g)) = esc_out (core_state g)"
  "control_u (core_state (armed_input env mpu g)) = control_u (core_state g)"
  "dRoll_err_integrator (core_state (armed_input env mpu g)) = dRoll_err_integrator (core_state g)"
  "dPitch_err_integrator (core_state (armed_input env mpu g)) = dPitch_err_integrator (core_state g)"
  "yaw_err_integrator (core_state (armed_input env mpu g)) = yaw_err_integrator (core_state g)"
  by (simp_all add: armed_input_def attitude_setpoint_frame estimate_state_frame)

lemma armed_input_core_state:
  "core_state (armed_input env mpu g) = core_state (estimate_state env mpu g)"
  by (simp add: armed_input_def attitude_setpoint_frame)

lemma throttle_controller_armed_input:
  "throttle_controller (armed_input env mpu g) = throttle_controller (estimate_state env mpu g)"
  by (simp add: throttle_controller_def armed_input_frame armed_input_core_state
      estimate_state_frame)

lemma disarmed_reset_effect:
  "dRoll_err_integrator (core_state (disarmed_reset g)) = 0"
  "dPitch_err_integrator (core_state (disarmed_reset g)) = 0"
  "yaw_err_integrator (core_state (disarmed_reset g)) = 0"
  "roll_ctrl (core_state (disarmed_reset g)) = zeroFilter (roll_ctrl (core_state g))"
  "pitch_ctrl (core_state (disarmed_reset g)) = zeroFilter (pitch_ctrl (core_state g))"
  "yaw_ctrl (core_state (disarmed_reset g)) = yaw_ctrl (core_state g)"
  "yaw_sp (core_setpoint (disarmed_reset g)) = 0"
  "core_mode (core_setpoint (disarmed_reset g)) = core_mode (core_setpoint g)"
  "esc_out (core_state (disarmed_reset g)) = [0, 0, 0, 0]"
  "control_u (core_state (disarmed_reset g)) = control_u (core_state g)"
  "previous_core_mode (disarmed_reset g) = DISARMED"
  "pulses (disarmed_reset g) = pulses g"
  by (simp_all add: disarmed_reset_def Let_def)

lemma zeroFilter_is_zero: "filter_is_zero (zeroFilter f)"
  by (simp add: filter_is_zero_def zeroFilter_def list_all_iff)


lemma send_esc_outputs_frame:
  "dRoll_err_integrator (core_state (send_esc_outputs is new_esc u g)) = dRoll_err_integrator (core_state g)"
  "dPitch_err_integrator (core_state (send_esc_outputs is new_esc u g)) = dPitch_err_integrator (core_state g)"
  "yaw_err_integrator (core_state (send_esc_outputs is new_esc u g)) = yaw_err_integrator (core_state g)"
  "yaw (core_state (send_esc_outputs is new_esc u g)) = yaw (core_state g)"
  "last_yaw (core_state (send_esc_outputs is new_esc u g)) = last_yaw (core_state g)"
  "num_yaw_spins (core_state (send_esc_outputs is new_esc u g)) = num_yaw_spins (core_state g)"
  "imu_yaw_on_takeoff (core_state (send_esc_outputs is new_esc u g)) = imu_yaw_on_takeoff (core_state g)"
  "core_setpoint (send_esc_outputs is new_esc u g) = core_setpoint g"
  "previous_core_mode (send_esc_outputs is new_esc u g) = previous_core_mode g"
  by (induction "is" new_esc u g rule: send_esc_outputs.induct; simp add: Let_def)+

lemma send_minimum_pulses_frame:
  "core_state (send_minimum_pulses is g) = core_state g"
  "core_setpoint (send_minimum_pulses is g) = core_setpoint g"
  "previous_core_mode (send_minimum_pulses is g) = previous_core_mode g"
  by (induction "is" g rule: send_minimum_pulses.induct; simp)+

lemma roll_pitch_integrators:
  "dRoll_err_integrator (core_state (roll_pitch_controllers env u0 g)) =
     (if u0 > INT_CUTOFF_TH
      then dRoll_err_integrator (core_state g)
           + ((roll_sp (core_setpoint g) - roll (core_state g)) * roll_rate_per_rad (core_config g)
              - dRoll (core_state g)) * DT
      else dRoll_err_integrator (core_state g))"
  "dPitch_err_integrator (core_state (roll_pitch_controllers env u0 g)) =
     (if u0 > INT_CUTOFF_TH
      then dPitch_err_integrator (core_state g)
           + ((pitch_sp (core_setpoint g) - pitch (core_state g)) * pitch_rate_per_rad (core_config g)
              - dPitch (core_state g)) * DT
      else dPitch_err_integrator (core_state g))"
  by (simp_all add: roll_pitch_controllers_def Let_def)

lemma yaw_integrator:
  "yaw_err_integrator (core_state (yaw_controller env u0 g)) =
     (if u0 > INT_CUTOFF_TH
      then yaw_err_integrator (core_state g)
           + (yaw_sp (core_setpoint g) - yaw (core_state g)) * DT
      else yaw_err_integrator (core_state g))"
  by (simp add: yaw_controller_def Let_def)

lemma run_controllers_integrators:
  "dRoll_err_integrator (core_state (run_controllers env g)) =
     (if throttle_controller g > INT_CUTOFF_TH
      then dRoll_err_integrator (core_state g)
           + ((roll_sp (core_setpoint g) - roll (core_state g)) * roll_rate_per_rad (core_config g)
              - dRoll (core_state g)) * DT
      else dRoll_err_integrator (core_state g))"
  "dPitch_err_integrator (core_state (run_controllers env g)) =
     (if throttle_controller g > INT_CUTOFF_TH
      then dPitch_err_integrator (core_state g)
           + ((pitch_sp (core_setpoint g) - pitch (core_state g)) * pitch_rate_per_rad (core_config g)
              - dPitch (core_state g)) * DT
      else dPitch_err_integrator (core_state g))"
  "yaw_err_integrator (core_state (run_controllers env g)) =
     (if throttle_controller g > INT_CUTOFF_TH
      then yaw_err_integrator (core_state g)
           + (yaw_sp (core_setpoint g) - yaw (core_state g)) * DT
      else yaw_err_integrator (core_state g))"
  by (simp_all add: run_controllers_def Let_def send_esc_outputs_frame send_minimum_pulses_frame
      roll_pitch_integrators yaw_integrator roll_pitch_frame yaw_controller_frame
      del: send_esc_outputs.simps send_minimum_pulses.simps)

subsection \<open>The integrators\<close>

text \<open>
  Claim C4, as the code has it. The integrators are gated on the throttle component
  \<open>u[0]\<close>, which is the throttle setpoint scaled to the thrust range, raised by the idle
  speed and compensated for tilt, not on the throttle setpoint itself. On every armed
  control cycle in which \<open>u[0]\<close> is at most \<open>INT_CUTOFF_TH\<close>, the three error
  integrators are left unchanged by the cycle.
\<close>

theorem integrators_gated_by_u0:
  assumes "core_mode (core_setpoint g) \<noteq> DISARMED"
    and "throttle_controller (estimate_state env mpu g) \<le> INT_CUTOFF_TH"
  shows "dRoll_err_integrator (core_state (flight_core env (Some mpu) g))
           = dRoll_err_integrator (core_state g)
         \<and> dPitch_err_integrator (core_state (flight_core env (Some mpu) g))
           = dPitch_err_integrator (core_state g)
         \<and> yaw_err_integrator (core_state (flight_core env (Some mpu) g))
           = yaw_err_integrator (core_state g)"
proof -
  have "\<not> throttle_controller (armed_input env mpu g) > INT_CUTOFF_TH"
    using assms(2) by (simp add: throttle_controller_armed_input)
  then show ?thesis
    by (simp add: flight_core_armed [OF assms(1)] run_controllers_integrators armed_input_frame)
qed

lemma example_u0:
  "throttle_controller (estimate_state example_platform level_mpu example_state) = 0.31"
  by (simp add: throttle_controller_def estimate_state_attitude estimate_state_frame
      example_defs MAX_THRUST_COMPONENT_def)

text \<open>
  Claim C4 as stated fails: with the throttle setpoint at 0.3, which is not above
  \<open>INT_CUTOFF_TH\<close>, an idle speed of 0.1 and a level vehicle, \<open>u[0]\<close> is 0.31, and a cycle
  with a roll rate error of 0.4 moves the roll integrator from 0 to 0.002.
\<close>

theorem integrators_throttle_counterexample:
  "core_mode (core_setpoint example_state) \<noteq> DISARMED
   \<and> throttle (core_setpoint example_state) \<le> INT_CUTOFF_TH
   \<and> dRoll_err_integrator (core_state example_state) = 0
   \<and> dRoll_err_integrator (core_state (flight_core example_platform (Some level_mpu) example_state))
       = 0.002"
proof -
  have armed: "core_mode (core_setpoint example_state) \<noteq> DISARMED"
    by (simp add: example_defs)
  have "throttle_controller (armed_input example_platform level_mpu example_state) > INT_CUTOFF_TH"
    by (simp add: throttle_controller_armed_input example_u0 INT_CUTOFF_TH_def)
  then have "dRoll_err_integrator
               (core_state (flight_core example_platform (Some level_mpu) example_state)) =
             dRoll_err_integrator (core_state example_state)
             + ((roll_sp (core_setpoint example_state)
                   - roll (core_state (estimate_state example_platform level_mpu example_state)))
                * roll_rate_per_rad (core_config example_state)
                - dRoll (core_state (estimate_state example_platform level_mpu example_state))) * DT"
    by (simp add: flight_core_armed [OF armed] run_controllers_integrators armed_input_frame
        armed_input_core_state estimate_state_frame)
  also have "\<dots> = 0.002"
    by (simp add: estimate_state_attitude example_defs DT_def)
  finally show ?thesis
    by (simp add: example_defs INT_CUTOFF_TH_def)
qed

text \<open>With no idle speed and the throttle setpoint at 0.3, \<open>u[0]\<close> is 0.24.\<close>

theorem integrators_gated_by_u0_witness:
  "core_mode (core_setpoint (example_state\<lparr>core_config := example_config\<lparr>idle_speed := 0\<rparr>\<rparr>)) \<noteq> DISARMED
   \<and> throttle_controller (estimate_state example_platform level_mpu
         (example_state\<lparr>core_config := example_config\<lparr>idle_speed := 0\<rparr>\<rparr>)) \<le> INT_CUTOFF_TH
   \<and> dRoll_err_integrator (core_state (flight_core example_platform (Some level_mpu)
         (example_state\<lparr>core_config := example_config\<lparr>idle_speed := 0\<rparr>\<rparr>))) = 0"
  using integrators_gated_by_u0 [of "example_state\<lparr>core_config := example_config\<lparr>idle_speed := 0\<rparr>\<rparr>"
      example_platform level_mpu]
  by (simp add: throttle_controller_def estimate_state_attitude estimate_state_frame
      example_defs MAX_THRUST_COMPONENT_def INT_CUTOFF_TH_def)

subsection \<open>The disarmed cycle\<close>

lemma flight_core_disarmed_effect:
  assumes "core_mode (core_setpoint g) = DISARMED"
  shows "dRoll_err_integrator (core_state (flight_core env (Some mpu) g)) = 0"
    and "dPitch_err_integrator (core_state (flight_core env (Some mpu) g)) = 0"
    and "yaw_err_integrator (core_state (flight_core env (Some mpu) g)) = 0"
    and "filter_is_zero (roll_ctrl (core_state (flight_core env (Some mpu) g)))"
    and "filter_is_zero (pitch_ctrl (core_state (flight_core env (Some mpu) g)))"
    and "yaw_ctrl (core_state (flight_core env (Some mpu) g)) = yaw_ctrl (core_state g)"
    and "yaw_sp (core_setpoint (flight_core env (Some mpu) g)) = 0"
    and "core_mode (core_setpoint (flight_core env (Some mpu) g)) = DISARMED"
    and "esc_out (core_state (flight_core env (Some mpu) g)) = [0, 0, 0, 0]"
    and "control_u (core_state (flight_core env (Some mpu) g)) = control_u (core_state g)"
    and "previous_core_mode (flight_core env (Some mpu) g) = DISARMED"
    and "pulses (flight_core env (Some mpu) g) = pulses g"
  using assms
  by (simp_all add: flight_core_disarmed disarmed_reset_effect estimate_state_frame
      zeroFilter_is_zero)

text \<open>
  Claim C1 says that a cycle run with the setpoint mode \<open>DISARMED\<close> zeroes the three
  integrators and the roll, pitch and yaw filters, sets the yaw setpoint to 0, clears
  \<open>esc_out\<close>, records \<open>DISARMED\<close> as the previous mode and sends no pulse, so that all
  filter states are zero whenever the core is disarmed. The code does all of this
  (\<open>flight_core_disarmed_effect\<close>) except for the yaw filter: the \<open>DISARMED\<close> case calls
  \<open>zeroFilter\<close> on \<open>roll_ctrl\<close> and \<open>pitch_ctrl\<close> only. After a disarm in flight the
  yaw filter keeps its output of 0.21 through the disarmed cycle.
\<close>

theorem disarmed_cycle_keeps_yaw_ctrl:
  "core_mode (core_setpoint killed_state) = DISARMED
   \<and> current_output (yaw_ctrl (core_state
        (flight_core example_platform (Some level_mpu) killed_state))) = 0.21
   \<and> \<not> filter_is_zero (yaw_ctrl (core_state
        (flight_core example_platform (Some level_mpu) killed_state)))"
proof -
  have dis: "core_mode (core_setpoint killed_state) = DISARMED"
    by (simp add: killed_state_def example_defs)
  have "yaw_ctrl (core_state (flight_core example_platform (Some level_mpu) killed_state))
          = flown_yaw_ctrl"
    by (simp add: flight_core_disarmed_effect(6) [OF dis]) (simp add: killed_state_def)
  then show ?thesis
    using dis by (simp add: flown_yaw_ctrl_def filter_is_zero_def)
qed

subsection \<open>The outputs of an armed cycle\<close>







lemma throttle_controller_c_Num:
  "throttle_controller_c (Num (roll (core_state g))) (Num (pitch (core_state g)))
     (Num (throttle (core_setpoint g))) (Num (idle_speed (core_config g)))
   = Num (throttle_controller g)"
  by (simp add: throttle_controller_c_def throttle_controller_def Let_def)






lemma send_esc_outputs_filters:
  "roll_ctrl (core_state (send_esc_outputs is new_esc u g)) = roll_ctrl (core_state g)"
  "pitch_ctrl (core_state (send_esc_outputs is new_esc u g)) = pitch_ctrl (core_state g)"
  "yaw_ctrl (core_state (send_esc_outputs is new_esc u g)) = yaw_ctrl (core_state g)"
  by (induction "is" new_esc u g rule: send_esc_outputs.induct; simp add: Let_def)+

lemma roll_pitch_filters:
  "roll_ctrl (core_state (roll_pitch_controllers env u0 g)) =
     saturateFilter
       (marchFilter env (roll_ctrl (core_state g))
          ((roll_sp (core_setpoint g) - roll (core_state g)) * roll_rate_per_rad (core_config g)
            - dRoll (core_state g)))
       (- (if throttle (core_setpoint g) < 0.1 then LAND_SATURATION else MAX_ROLL_COMPONENT))
       (if throttle (core_setpoint g) < 0.1 then LAND_SATURATION else MAX_ROLL_COMPONENT)"
  "pitch_ctrl (core_state (roll_pitch_controllers env u0 g)) =
     saturateFilter
       (marchFilter env (pitch_ctrl (core_state g))
          ((pitch_sp (core_setpoint g) - pitch (core_state g)) * pitch_rate_per_rad (core_config g)
            - dPitch (core_state g)))
       (- (if throttle (core_setpoint g) < 0.1 then LAND_SATURATION else MAX_PITCH_COMPONENT))
       (if throttle (core_setpoint g) < 0.1 then LAND_SATURATION else MAX_PITCH_COMPONENT)"
  by (simp_all add: roll_pitch_controllers_def Let_def)

lemma yaw_filter:
  "yaw_ctrl (core_state (yaw_controller env u0 g)) =
     saturateFilter
       (marchFilter env (yaw_ctrl (core_state g)) (yaw_sp (core_setpoint g) - yaw (core_state g)))
       (- (if throttle (core_setpoint g) < 0.1 then LAND_SATURATION else MAX_YAW_COMPONENT))
       (if throttle (core_setpoint g) < 0.1 then LAND_SATURATION else MAX_YAW_COMPONENT)"
  by (simp add: yaw_controller_def Let_def)

lemma run_controllers_filters:
  "roll_ctrl (core_state (run_controllers env g)) =
     roll_ctrl (core_state (roll_pitch_controllers env (throttle_controller g) g))"
  "pitch_ctrl (core_state (run_controllers env g)) =
     pitch_ctrl (core_state (roll_pitch_controllers env (throttle_controller g) g))"
  "yaw_ctrl (core_state (run_controllers env g)) =
     yaw_ctrl (core_state (yaw_controller env (throttle_controller g) g))"
    by (simp_all add: run_controllers_def Let_def send_esc_outputs_filters send_minimum_pulses_frame
      roll_pitch_frame yaw_controller_frame yaw_filter
      del: send_esc_outputs.simps send_minimum_pulses.simps)

lemma run_controllers_control_u:
  assumes "previous_core_mode g \<noteq> DISARMED"
    and "length (control_u (core_state g)) = 4"
  shows "control_u (core_state (run_controllers env g)) =
           [throttle_controller g,
            current_output (roll_ctrl (core_state (run_controllers env g))),
            current_output (pitch_ctrl (core_state (run_controllers env g))),
            current_output (yaw_ctrl (core_state (run_controllers env g)))]"
proof -
  define g2 where "g2 = yaw_controller env (throttle_controller g)
                          (roll_pitch_controllers env (throttle_controller g) g)"
  define u where "u = [throttle_controller g,
                       current_output (roll_ctrl (core_state g2)),
                       current_output (pitch_ctrl (core_state g2)),
                       current_output (yaw_ctrl (core_state g2))]"
  define new_esc where "new_esc = prevent_saturation (mixing u)"
  have prev: "previous_core_mode g2 \<noteq> DISARMED"
    using assms(1) by (simp add: g2_def roll_pitch_frame yaw_controller_frame)
  have len: "length (control_u (core_state g2)) = 4"
    using assms(2) by (simp add: g2_def roll_pitch_frame yaw_controller_frame)
  have "control_u (core_state (run_controllers env g)) =
          control_u (core_state (send_esc_outputs [0, 1, 2, 3] new_esc u g2))"
    using prev
    by (simp add: run_controllers_def Let_def g2_def u_def new_esc_def
        roll_pitch_frame yaw_controller_frame del: send_esc_outputs.simps)
  also have "\<dots> = (control_u (core_state g2))[0 := u ! 0, 1 := u ! 1, 2 := u ! 2, 3 := u ! 3]"
    by (rule send_esc_outputs_control_u)
  also have "\<dots> = [u ! 0, u ! 1, u ! 2, u ! 3]" by (rule list4_update_all [OF len])
  also have "\<dots> = u" by (simp add: u_def)
  finally have cu: "control_u (core_state (run_controllers env g)) = u" .
  have "roll_ctrl (core_state (run_controllers env g)) = roll_ctrl (core_state g2)"
    "pitch_ctrl (core_state (run_controllers env g)) = pitch_ctrl (core_state g2)"
    "yaw_ctrl (core_state (run_controllers env g)) = yaw_ctrl (core_state g2)"
    by (simp_all add: run_controllers_filters g2_def yaw_controller_frame yaw_filter
        roll_pitch_frame)
  then show ?thesis by (simp add: cu u_def)
qed

subsection \<open>The first armed cycle\<close>

text \<open>
  Claim C8, as the code has it. On the first control cycle after the core was disarmed
  (the previous mode is \<open>DISARMED\<close> and the setpoint mode is not), the core sends a
  normalized pulse of 0 on all four channels and leaves \<open>esc_out\<close> and \<open>control_u\<close> as
  they were before the cycle, whatever the mixer computed. The disarmed cycle before it
  has cleared \<open>esc_out\<close>, which therefore stays all zeros; it has not touched
  \<open>control_u\<close>, which keeps the values of the last cycle that recorded them.
\<close>

theorem first_armed_cycle_frame:
  "(previous_core_mode g = DISARMED \<and> core_mode (core_setpoint g) \<noteq> DISARMED \<longrightarrow>
      pulses (flight_core env (Some mpu) g) = pulses g @ [(1, 0), (2, 0), (3, 0), (4, 0)]
      \<and> esc_out (core_state (flight_core env (Some mpu) g)) = esc_out (core_state g)
      \<and> control_u (core_state (flight_core env (Some mpu) g)) = control_u (core_state g))
   \<and> (core_mode (core_setpoint g) = DISARMED \<longrightarrow>
      previous_core_mode (flight_core env (Some mpu) g) = DISARMED
      \<and> esc_out (core_state (flight_core env (Some mpu) g)) = [0, 0, 0, 0]
      \<and> control_u (core_state (flight_core env (Some mpu) g)) = control_u (core_state g))"
proof (intro conjI impI)
  assume a: "previous_core_mode g = DISARMED \<and> core_mode (core_setpoint g) \<noteq> DISARMED"
  then have p: "previous_core_mode (armed_input env mpu g) = DISARMED"
    by (simp add: armed_input_frame)
  have fc: "flight_core env (Some mpu) g = run_controllers env (armed_input env mpu g)"
    using a by (simp add: flight_core_armed)
  show "pulses (flight_core env (Some mpu) g) = pulses g @ [(1, 0), (2, 0), (3, 0), (4, 0)]"
    using run_controllers_first_armed(1) [OF p, of env] by (simp add: fc armed_input_frame)
  show "esc_out (core_state (flight_core env (Some mpu) g)) = esc_out (core_state g)"
    using run_controllers_first_armed(2) [OF p, of env] by (simp add: fc armed_input_frame)
  show "control_u (core_state (flight_core env (Some mpu) g)) = control_u (core_state g)"
    using run_controllers_first_armed(3) [OF p, of env] by (simp add: fc armed_input_frame)
next
  assume d: "core_mode (core_setpoint g) = DISARMED"
  show "previous_core_mode (flight_core env (Some mpu) g) = DISARMED"
    by (rule flight_core_disarmed_effect(11) [OF d])
  show "esc_out (core_state (flight_core env (Some mpu) g)) = [0, 0, 0, 0]"
    by (rule flight_core_disarmed_effect(9) [OF d])
  show "control_u (core_state (flight_core env (Some mpu) g)) = control_u (core_state g)"
    by (rule flight_core_disarmed_effect(10) [OF d])
qed

lemma rearmed_state_facts:
  "previous_core_mode rearmed_state = DISARMED"
  "core_mode (core_setpoint rearmed_state) = ATTITUDE"
  "esc_out (core_state rearmed_state) = [0, 0, 0, 0]"
  "control_u (core_state rearmed_state) = [0.45, 0.2, 0, 0]"
proof -
  have d: "core_mode (core_setpoint landed_state) = DISARMED"
    by (simp add: landed_state_def example_defs)
  show "previous_core_mode rearmed_state = DISARMED"
    by (simp add: rearmed_state_def Let_def flight_core_disarmed_effect(11) [OF d])
  show "core_mode (core_setpoint rearmed_state) = ATTITUDE"
    by (simp add: rearmed_state_def Let_def)
  show "esc_out (core_state rearmed_state) = [0, 0, 0, 0]"
    by (simp add: rearmed_state_def Let_def flight_core_disarmed_effect(9) [OF d])
  show "control_u (core_state rearmed_state) = [0.45, 0.2, 0, 0]"
    by (simp add: rearmed_state_def Let_def flight_core_disarmed_effect(10) [OF d])
       (simp add: landed_state_def example_defs)
qed

text \<open>
  Claim C8 as stated has \<open>control_u\<close> all zeros on that cycle. After a flight that left
  \<open>control_u\<close> at 0.45, 0.2, 0, 0, a disarmed cycle and a re-arm, the first armed cycle
  leaves \<open>control_u\<close> at those values.
\<close>

theorem first_armed_cycle_control_u_counterexample:
  "previous_core_mode rearmed_state = DISARMED
   \<and> core_mode (core_setpoint rearmed_state) = ATTITUDE
   \<and> control_u (core_state (flight_core example_platform (Some level_mpu) rearmed_state))
       = [0.45, 0.2, 0, 0]
   \<and> control_u (core_state (flight_core example_platform (Some level_mpu) rearmed_state))
       \<noteq> [0, 0, 0, 0]"
proof -
  have p: "previous_core_mode (armed_input example_platform level_mpu rearmed_state) = DISARMED"
    by (simp add: armed_input_frame rearmed_state_facts)
  have "flight_core example_platform (Some level_mpu) rearmed_state =
          run_controllers example_platform (armed_input example_platform level_mpu rearmed_state)"
    by (rule flight_core_armed) (simp add: rearmed_state_facts)
  then have "control_u (core_state (flight_core example_platform (Some level_mpu) rearmed_state))
               = [0.45, 0.2, 0, 0]"
    using run_controllers_first_armed(3) [OF p, of example_platform]
    by (simp add: armed_input_frame rearmed_state_facts)
  then show ?thesis by (simp add: rearmed_state_facts)
qed

theorem first_armed_cycle_frame_witness:
  "previous_core_mode rearmed_state = DISARMED
   \<and> core_mode (core_setpoint rearmed_state) \<noteq> DISARMED
   \<and> core_mode (core_setpoint landed_state) = DISARMED
   \<and> pulses (flight_core example_platform (Some level_mpu) rearmed_state)
       = pulses rearmed_state @ [(1, 0), (2, 0), (3, 0), (4, 0)]
   \<and> esc_out (core_state (flight_core example_platform (Some level_mpu) rearmed_state))
       = [0, 0, 0, 0]
   \<and> esc_out (core_state (flight_core example_platform (Some level_mpu) landed_state))
       = [0, 0, 0, 0]"
proof -
  have d: "core_mode (core_setpoint landed_state) = DISARMED"
    by (simp add: landed_state_def example_defs)
  show ?thesis
    using first_armed_cycle_frame [of rearmed_state example_platform level_mpu]
      first_armed_cycle_frame [of landed_state example_platform level_mpu] d
    by (simp add: rearmed_state_facts)
qed

subsection \<open>Lower saturation\<close>

lemma clamp_esc_low: "x \<le> 1 \<Longrightarrow> clamp_esc x = max 0 x"
  by (simp add: clamp_esc_def max_def)

text \<open>
  Claim C10. The even reduction applies to upper saturation only. On a cycle that
  records its outputs, if some entry of the mixed vector is below 0 and no entry exceeds
  1, the headroom step leaves the vector as it is, that entry is clamped to 0 on its
  own, every channel gets its own mixed value clamped below at 0 with no common offset,
  and the difference between the clamped entry and any entry of another value is not
  what it was in the mixed vector.
\<close>

theorem lower_saturation_clamps_individually:
  assumes "core_mode (core_setpoint g) \<noteq> DISARMED"
    and "previous_core_mode g \<noteq> DISARMED"
    and "length (esc_out (core_state g)) = 4"
    and "length (control_u (core_state g)) = 4"
    and "g' = flight_core env (Some mpu) g"
    and "new_esc = mixing (control_u (core_state g'))"
    and "\<forall>x \<in> set new_esc. x \<le> 1"
    and "i < 4" and "new_esc ! i < 0"
  shows "prevent_saturation new_esc = new_esc
         \<and> esc_out (core_state g') ! i = 0
         \<and> (\<forall>j < 4. esc_out (core_state g') ! j = max 0 (new_esc ! j))
         \<and> (\<forall>j < 4. new_esc ! j \<noteq> new_esc ! i \<longrightarrow>
               esc_out (core_state g') ! j - esc_out (core_state g') ! i
                 \<noteq> new_esc ! j - new_esc ! i)"
proof -
  let ?a = "armed_input env mpu g"
  have fc: "g' = run_controllers env ?a"
    using assms(5) flight_core_armed [OF assms(1)] by simp
  have p: "previous_core_mode ?a \<noteq> DISARMED" using assms(2) by (simp add: armed_input_frame)
  have l: "length (esc_out (core_state ?a)) = 4" "length (control_u (core_state ?a)) = 4"
    using assms(3,4) by (simp_all add: armed_input_frame)
  have len: "length new_esc = 4" by (simp add: assms(6) mixing_def)
  then have ne: "new_esc \<noteq> []" by auto
  have "Max (set new_esc) \<le> 1" using assms(7) ne by simp
  then have ps: "prevent_saturation new_esc = new_esc"
    by (rule prevent_saturation_below [OF ne])
  have eo: "esc_out (core_state g') = map clamp_esc new_esc"
    using run_controllers_armed(1) [OF p l, of env] ps by (simp add: fc [symmetric] assms(6))
  have each: "esc_out (core_state g') ! j = max 0 (new_esc ! j)" if "j < 4" for j
  proof -
    have "new_esc ! j \<in> set new_esc" using that len by simp
    then have "new_esc ! j \<le> 1" using assms(7) by blast
    then show ?thesis using that len by (simp add: eo clamp_esc_low)
  qed
  have zero: "esc_out (core_state g') ! i = 0"
    using each [OF assms(8)] assms(9) by simp
  have diff: "esc_out (core_state g') ! j - esc_out (core_state g') ! i
                \<noteq> new_esc ! j - new_esc ! i"
    if "j < 4" "new_esc ! j \<noteq> new_esc ! i" for j
    using each [OF that(1)] zero assms(9) that(2) by (simp add: max_def split: if_splits)
  show ?thesis using ps zero each diff by blast
qed

lemma example_march:
  "marchFilter example_platform f e = f\<lparr>last_input := e, current_output := kp f * e\<rparr>"
  by (simp add: example_platform_def)

lemma grounded_state_facts:
  "core_mode (core_setpoint grounded_state) \<noteq> DISARMED"
  "previous_core_mode grounded_state \<noteq> DISARMED"
  "length (esc_out (core_state grounded_state)) = 4"
  "length (control_u (core_state grounded_state)) = 4"
  by (simp_all add: grounded_state_def example_defs)

lemma grounded_state_u:
  "control_u (core_state (flight_core example_platform (Some level_mpu) grounded_state))
     = [0, 0.05, 0, 0]"
proof -
  let ?a = "armed_input example_platform level_mpu grounded_state"
  have fc: "flight_core example_platform (Some level_mpu) grounded_state =
              run_controllers example_platform ?a"
    by (rule flight_core_armed [OF grounded_state_facts(1)])
  have p: "previous_core_mode ?a \<noteq> DISARMED"
    and l: "length (control_u (core_state ?a)) = 4"
    using grounded_state_facts by (simp_all add: armed_input_frame)
  have sp: "throttle (core_setpoint ?a) = 0" "roll_sp (core_setpoint ?a) = 0.1"
    "pitch_sp (core_setpoint ?a) = 0"
    by (simp_all add: armed_input_frame grounded_state_def example_defs)
  have ysp: "yaw_sp (core_setpoint ?a) = 0"
    by (simp add: armed_input_def attitude_setpoint_def estimate_state_frame Let_def
        grounded_state_def example_defs YAW_CUTOFF_TH_def)
  have cfg: "core_config ?a = example_config\<lparr>idle_speed := 0\<rparr>"
    by (simp add: armed_input_frame grounded_state_def example_defs)
  have cs: "roll (core_state ?a) = 0" "pitch (core_state ?a) = 0"
    "dRoll (core_state ?a) = 0" "dPitch (core_state ?a) = 0"
    by (simp_all add: armed_input_core_state estimate_state_attitude
        grounded_state_def example_defs)
  have yw: "yaw (core_state ?a) = 0"
    by (simp add: armed_input_core_state estimate_state_def Let_def
        grounded_state_def example_defs)
  have fl: "roll_ctrl (core_state ?a) = generatePID 1 0 0 0.015 DT"
    "pitch_ctrl (core_state ?a) = generatePID 1 0 0 0.015 DT"
    "yaw_ctrl (core_state ?a) = generatePID 1 0 0 0.015 DT"
    by (simp_all add: armed_input_core_state estimate_state_frame
        grounded_state_def example_defs)
  have u0: "throttle_controller ?a = 0"
    by (simp add: throttle_controller_def sp cfg cs example_config_def)
  have u1: "current_output (roll_ctrl (core_state (run_controllers example_platform ?a))) = 0.05"
    by (simp add: run_controllers_filters roll_pitch_filters sp cfg cs fl
        example_config_def example_march saturateFilter_def generatePID_def
        LAND_SATURATION_def)
  have u2: "current_output (pitch_ctrl (core_state (run_controllers example_platform ?a))) = 0"
    by (simp add: run_controllers_filters roll_pitch_filters sp cfg cs fl
        example_config_def example_march saturateFilter_def generatePID_def
        LAND_SATURATION_def)
  have u3: "current_output (yaw_ctrl (core_state (run_controllers example_platform ?a))) = 0"
    by (simp add: run_controllers_filters yaw_filter sp ysp yw fl
        example_march saturateFilter_def generatePID_def LAND_SATURATION_def)
  show ?thesis
    by (simp add: fc run_controllers_control_u [OF p l] u0 u1 u2 u3)
qed

theorem lower_saturation_clamps_individually_witness:
  "core_mode (core_setpoint grounded_state) \<noteq> DISARMED
   \<and> previous_core_mode grounded_state \<noteq> DISARMED
   \<and> mixing (control_u (core_state
        (flight_core example_platform (Some level_mpu) grounded_state)))
       = [- 0.05, 0.05, 0.05, - 0.05]
   \<and> esc_out (core_state (flight_core example_platform (Some level_mpu) grounded_state)) ! 0 = 0
   \<and> esc_out (core_state (flight_core example_platform (Some level_mpu) grounded_state)) ! 1
       = 0.05"
proof -
  have m: "mixing (control_u (core_state
             (flight_core example_platform (Some level_mpu) grounded_state)))
           = [- 0.05, 0.05, 0.05, - 0.05]"
    by (simp add: grounded_state_u mixing_def)
  have le: "\<forall>x \<in> set [- 0.05, 0.05, 0.05, - 0.05 :: real]. x \<le> 1" by simp
  have neg: "[- 0.05, 0.05, 0.05, - 0.05 :: real] ! 0 < 0" by simp
  from lower_saturation_clamps_individually
    [OF grounded_state_facts refl m [symmetric] le _ neg]
  show ?thesis
    using grounded_state_facts(1,2) m by simp
qed

subsection \<open>A frame with the kill switch\<close>

text \<open>
  Claim C9. When a newly received frame has channel 5 below 0, the watcher sets the kill
  switch to 1 and disarms, and leaves the four sticks and the flight mode as they were:
  the user interface changes in its kill switch only. Channels 1 to 4 and 6 are decoded
  only on a new frame with channel 5 at or above 0, where the sticks become channel 1,
  minus channel 2, minus channel 3 and channel 4; without a new frame the pass does not
  depend on the channels at all.
\<close>

theorem kill_switch_frame:
  "(is_new_dsm2_data p = 1 \<and> get_dsm2_ch_normalized p 5 < 0 \<longrightarrow>
      kill_switch (user_interface (snd (DSM2_watcher_step p (w, g)))) = 1
      \<and> core_mode (core_setpoint (snd (DSM2_watcher_step p (w, g)))) = DISARMED
      \<and> user_interface (snd (DSM2_watcher_step p (w, g)))
          = (user_interface g)\<lparr>kill_switch := 1\<rparr>)
   \<and> (is_new_dsm2_data p = 1 \<and> \<not> get_dsm2_ch_normalized p 5 < 0 \<longrightarrow>
      user_interface (snd (DSM2_watcher_step p (w, g)))
        = \<lparr>flight_mode = USER_ATTITUDE,
           throttle_stick = get_dsm2_ch_normalized p 1,
           yaw_stick = get_dsm2_ch_normalized p 4,
           roll_stick = - get_dsm2_ch_normalized p 2,
           pitch_stick = - get_dsm2_ch_normalized p 3,
           kill_switch = 0\<rparr>)
   \<and> (is_new_dsm2_data p \<noteq> 1 \<longrightarrow>
      DSM2_watcher_step (p\<lparr>get_dsm2_ch_normalized := ch\<rparr>) (w, g) = DSM2_watcher_step p (w, g))"
  by (simp add: DSM2_watcher_step_def disarm_def Let_def)

theorem kill_switch_frame_witness:
  "is_new_dsm2_data kill_frame = 1 \<and> get_dsm2_ch_normalized kill_frame 5 < 0
   \<and> user_interface (snd (DSM2_watcher_step kill_frame (example_locals, example_state)))
       = \<lparr>flight_mode = USER_ATTITUDE, throttle_stick = - 0.4, yaw_stick = 0,
          roll_stick = 0.25, pitch_stick = 0, kill_switch = 1\<rparr>
   \<and> core_mode (core_setpoint (snd (DSM2_watcher_step kill_frame (example_locals, example_state))))
       = DISARMED
   \<and> is_new_dsm2_data fly_frame = 1 \<and> \<not> get_dsm2_ch_normalized fly_frame 5 < 0
   \<and> user_interface (snd (DSM2_watcher_step fly_frame (example_locals, example_state)))
       = \<lparr>flight_mode = USER_ATTITUDE, throttle_stick = 0.5, yaw_stick = 0.5,
          roll_stick = - 0.5, pitch_stick = - 0.5, kill_switch = 0\<rparr>"
proof -
  have k: "is_new_dsm2_data kill_frame = 1 \<and> get_dsm2_ch_normalized kill_frame 5 < 0"
    by (simp add: kill_frame_def)
  have f: "is_new_dsm2_data fly_frame = 1 \<and> \<not> get_dsm2_ch_normalized fly_frame 5 < 0"
    by (simp add: fly_frame_def kill_frame_def)
  have ch: "get_dsm2_ch_normalized fly_frame (Suc 0) = 0.5"
    "get_dsm2_ch_normalized fly_frame 2 = 0.5"
    "get_dsm2_ch_normalized fly_frame 3 = 0.5" "get_dsm2_ch_normalized fly_frame 4 = 0.5"
    by (simp_all add: fly_frame_def kill_frame_def)
  have ui: "user_interface example_state = example_user_interface"
    by (simp add: example_state_def)
  show ?thesis
    using kill_switch_frame [of kill_frame example_locals example_state]
      kill_switch_frame [of fly_frame example_locals example_state] k f
    by (simp add: ch ui example_user_interface_def)
qed

subsection \<open>The yaw estimate\<close>

lemma estimate_state_yaw:
  assumes "\<not> (previous_core_mode g = DISARMED \<and> core_mode (core_setpoint g) \<noteq> DISARMED)"
  shows "num_yaw_spins (core_state (estimate_state env mpu g)) =
           (if - (fusedEuler_Z mpu - imu_yaw_on_takeoff (core_state g))
                 + real_of_int (num_yaw_spins (core_state g) * 2) * PI env
                 - last_yaw (core_state g) > 6
            then num_yaw_spins (core_state g) - 1
            else if - (fusedEuler_Z mpu - imu_yaw_on_takeoff (core_state g))
                      + real_of_int (num_yaw_spins (core_state g) * 2) * PI env
                      - last_yaw (core_state g) < - 6
            then num_yaw_spins (core_state g) + 1
            else num_yaw_spins (core_state g))"
    and "imu_yaw_on_takeoff (core_state (estimate_state env mpu g)) =
           imu_yaw_on_takeoff (core_state g)"
    and "last_yaw (core_state (estimate_state env mpu g)) = yaw (core_state g)"
    and "yaw (core_state (estimate_state env mpu g)) =
           - (fusedEuler_Z mpu - imu_yaw_on_takeoff (core_state g))
           + real_of_int (num_yaw_spins (core_state (estimate_state env mpu g)) * 2) * PI env"
  using assms by (auto simp add: estimate_state_def Let_def)

lemma disarmed_reset_yaw_frame:
  "yaw (core_state (disarmed_reset g)) = yaw (core_state g)"
  "last_yaw (core_state (disarmed_reset g)) = last_yaw (core_state g)"
  "num_yaw_spins (core_state (disarmed_reset g)) = num_yaw_spins (core_state g)"
  "imu_yaw_on_takeoff (core_state (disarmed_reset g)) = imu_yaw_on_takeoff (core_state g)"
  by (simp_all add: disarmed_reset_def Let_def)

lemma run_controllers_yaw_frame:
  "yaw (core_state (run_controllers env g)) = yaw (core_state g)"
  "last_yaw (core_state (run_controllers env g)) = last_yaw (core_state g)"
  "num_yaw_spins (core_state (run_controllers env g)) = num_yaw_spins (core_state g)"
  "imu_yaw_on_takeoff (core_state (run_controllers env g)) = imu_yaw_on_takeoff (core_state g)"
  "core_setpoint (run_controllers env g) = core_setpoint g"
  "previous_core_mode (run_controllers env g) = core_mode (core_setpoint g)"
  by (simp_all add: run_controllers_def Let_def send_esc_outputs_frame send_minimum_pulses_frame
      roll_pitch_frame yaw_controller_frame
      del: send_esc_outputs.simps send_minimum_pulses.simps)

lemma flight_core_yaw_frame:
  "yaw (core_state (flight_core env (Some mpu) g)) = yaw (core_state (estimate_state env mpu g))"
  "last_yaw (core_state (flight_core env (Some mpu) g)) =
     last_yaw (core_state (estimate_state env mpu g))"
  "num_yaw_spins (core_state (flight_core env (Some mpu) g)) =
     num_yaw_spins (core_state (estimate_state env mpu g))"
  "imu_yaw_on_takeoff (core_state (flight_core env (Some mpu) g)) =
     imu_yaw_on_takeoff (core_state (estimate_state env mpu g))"
  "core_mode (core_setpoint (flight_core env (Some mpu) g)) = core_mode (core_setpoint g)"
  "previous_core_mode (flight_core env (Some mpu) g) = core_mode (core_setpoint g)"
proof -
  show "yaw (core_state (flight_core env (Some mpu) g)) = yaw (core_state (estimate_state env mpu g))"
    by (cases "core_mode (core_setpoint g) = DISARMED")
       (simp_all add: flight_core_disarmed flight_core_armed disarmed_reset_yaw_frame
          run_controllers_yaw_frame armed_input_core_state)
  show "last_yaw (core_state (flight_core env (Some mpu) g)) =
     last_yaw (core_state (estimate_state env mpu g))"
    by (cases "core_mode (core_setpoint g) = DISARMED")
       (simp_all add: flight_core_disarmed flight_core_armed disarmed_reset_yaw_frame
          run_controllers_yaw_frame armed_input_core_state)
  show "num_yaw_spins (core_state (flight_core env (Some mpu) g)) =
     num_yaw_spins (core_state (estimate_state env mpu g))"
    by (cases "core_mode (core_setpoint g) = DISARMED")
       (simp_all add: flight_core_disarmed flight_core_armed disarmed_reset_yaw_frame
          run_controllers_yaw_frame armed_input_core_state)
  show "imu_yaw_on_takeoff (core_state (flight_core env (Some mpu) g)) =
     imu_yaw_on_takeoff (core_state (estimate_state env mpu g))"
    by (cases "core_mode (core_setpoint g) = DISARMED")
       (simp_all add: flight_core_disarmed flight_core_armed disarmed_reset_yaw_frame
          run_controllers_yaw_frame armed_input_core_state)
  show "core_mode (core_setpoint (flight_core env (Some mpu) g)) = core_mode (core_setpoint g)"
    by (cases "core_mode (core_setpoint g) = DISARMED")
       (simp_all add: flight_core_disarmed flight_core_armed disarmed_reset_effect
          run_controllers_yaw_frame armed_input_frame estimate_state_frame)
  show "previous_core_mode (flight_core env (Some mpu) g) = core_mode (core_setpoint g)"
    by (cases "core_mode (core_setpoint g) = DISARMED")
       (simp_all add: flight_core_disarmed flight_core_armed disarmed_reset_effect
          run_controllers_yaw_frame armed_input_frame estimate_state_frame)
qed

text \<open>One pass of the yaw estimate, when the core has not just been armed.\<close>

lemma flight_core_yaw:
  assumes "\<not> (previous_core_mode g = DISARMED \<and> core_mode (core_setpoint g) \<noteq> DISARMED)"
  shows "num_yaw_spins (core_state (flight_core env (Some mpu) g)) =
           (if - (fusedEuler_Z mpu - imu_yaw_on_takeoff (core_state g))
                 + 2 * PI env * real_of_int (num_yaw_spins (core_state g))
                 - last_yaw (core_state g) > 6
            then num_yaw_spins (core_state g) - 1
            else if - (fusedEuler_Z mpu - imu_yaw_on_takeoff (core_state g))
                      + 2 * PI env * real_of_int (num_yaw_spins (core_state g))
                      - last_yaw (core_state g) < - 6
            then num_yaw_spins (core_state g) + 1
            else num_yaw_spins (core_state g))"
    and "yaw (core_state (flight_core env (Some mpu) g)) =
           - (fusedEuler_Z mpu - imu_yaw_on_takeoff (core_state g))
           + 2 * PI env * real_of_int (num_yaw_spins (core_state (flight_core env (Some mpu) g)))"
    and "last_yaw (core_state (flight_core env (Some mpu) g)) = yaw (core_state g)"
    and "imu_yaw_on_takeoff (core_state (flight_core env (Some mpu) g)) =
           imu_yaw_on_takeoff (core_state g)"
  using estimate_state_yaw [OF assms, of env mpu]
  by (simp_all add: flight_core_yaw_frame mult.commute mult.left_commute)

text \<open>Two passes from a steady heading, with fused yaw 3.10 and then - 3.10.\<close>

lemma yaw_wrap_two_cycles:
  assumes armed: "core_mode (core_setpoint g) \<noteq> DISARMED" "previous_core_mode g \<noteq> DISARMED"
    and steady: "num_yaw_spins (core_state g) = 0"
      "yaw (core_state g) = - (3.10 - imu_yaw_on_takeoff (core_state g))"
      "last_yaw (core_state g) = yaw (core_state g)"
    and z: "fusedEuler_Z mpu1 = 3.10" "fusedEuler_Z mpu2 = - 3.10"
    and g1: "g1 = flight_core env (Some mpu1) g"
    and g2: "g2 = flight_core env (Some mpu2) g1"
  shows "num_yaw_spins (core_state g1) = 0"
    and "num_yaw_spins (core_state g2) = - 1"
    and "yaw (core_state g2) - yaw (core_state g1) = 6.2 - 2 * PI env"
proof -
  have n1: "\<not> (previous_core_mode g = DISARMED \<and> core_mode (core_setpoint g) \<noteq> DISARMED)"
    using armed by simp
  have s1: "num_yaw_spins (core_state g1) = 0"
    unfolding g1 by (simp add: flight_core_yaw(1) [OF n1] steady z)
  have y1: "yaw (core_state g1) = - (3.10 - imu_yaw_on_takeoff (core_state g))"
    using flight_core_yaw(2) [OF n1, where mpu = mpu1 and env = env] s1 by (simp add: g1 z)
  have l1: "last_yaw (core_state g1) = - (3.10 - imu_yaw_on_takeoff (core_state g))"
    unfolding g1 by (simp add: flight_core_yaw(3) [OF n1] steady)
  have t1: "imu_yaw_on_takeoff (core_state g1) = imu_yaw_on_takeoff (core_state g)"
    unfolding g1 by (simp add: flight_core_yaw(4) [OF n1])
  have n2: "\<not> (previous_core_mode g1 = DISARMED \<and> core_mode (core_setpoint g1) \<noteq> DISARMED)"
    unfolding g1 using armed by (simp add: flight_core_yaw_frame)
  have s2: "num_yaw_spins (core_state g2) = - 1"
    unfolding g2 by (simp add: flight_core_yaw(1) [OF n2] s1 l1 t1 z)
  have y2: "yaw (core_state g2) = 3.10 + imu_yaw_on_takeoff (core_state g) - 2 * PI env"
    using flight_core_yaw(2) [OF n2, where mpu = mpu2 and env = env] s2 by (simp add: g2 z t1)
  show "num_yaw_spins (core_state g1) = 0" by (rule s1)
  show "num_yaw_spins (core_state g2) = - 1" by (rule s2)
  show "yaw (core_state g2) - yaw (core_state g1) = 6.2 - 2 * PI env"
    by (simp add: y1 y2)
qed

text \<open>
  Claim C5, as the code has it. Unless the core has just been armed, a pass computes
  \<open>new_yaw\<close> as minus the fused yaw relative to the takeoff yaw, plus 2 \<open>PI\<close> times the
  number of spins, takes one spin off when \<open>new_yaw - last_yaw\<close> exceeds 6 and adds one
  when it is below - 6, and then computes the yaw again with the new number of spins.
  The core reports the fused yaw negated, so for two successive fused readings of 3.10
  and then - 3.10 rad, from a steady heading with no spins, the reported yaw changes by
  6.2 - 2 \<open>PI\<close>, about - 0.083 rad, rather than by + 6.20 rad. \<open>PI\<close> is the constant of the
  cape library, taken between 3.14 and 3.15.
\<close>

theorem yaw_unwrap:
  "(\<not> (previous_core_mode g = DISARMED \<and> core_mode (core_setpoint g) \<noteq> DISARMED) \<longrightarrow>
      num_yaw_spins (core_state (flight_core env (Some mpu) g)) =
        (if - (fusedEuler_Z mpu - imu_yaw_on_takeoff (core_state g))
              + 2 * PI env * real_of_int (num_yaw_spins (core_state g))
              - last_yaw (core_state g) > 6
         then num_yaw_spins (core_state g) - 1
         else if - (fusedEuler_Z mpu - imu_yaw_on_takeoff (core_state g))
                   + 2 * PI env * real_of_int (num_yaw_spins (core_state g))
                   - last_yaw (core_state g) < - 6
         then num_yaw_spins (core_state g) + 1
         else num_yaw_spins (core_state g))
      \<and> yaw (core_state (flight_core env (Some mpu) g)) =
          - (fusedEuler_Z mpu - imu_yaw_on_takeoff (core_state g))
          + 2 * PI env * real_of_int (num_yaw_spins (core_state (flight_core env (Some mpu) g))))
   \<and> (core_mode (core_setpoint g) \<noteq> DISARMED \<and> previous_core_mode g \<noteq> DISARMED
       \<and> num_yaw_spins (core_state g) = 0
       \<and> yaw (core_state g) = - (3.10 - imu_yaw_on_takeoff (core_state g))
       \<and> last_yaw (core_state g) = yaw (core_state g)
       \<and> fusedEuler_Z mpu1 = 3.10 \<and> fusedEuler_Z mpu2 = - 3.10
       \<and> 3.14 < PI env \<and> PI env < 3.15 \<longrightarrow>
         num_yaw_spins (core_state (flight_core env (Some mpu2) (flight_core env (Some mpu1) g)))
           = - 1
         \<and> yaw (core_state (flight_core env (Some mpu2) (flight_core env (Some mpu1) g)))
             - yaw (core_state (flight_core env (Some mpu1) g)) = 6.2 - 2 * PI env
         \<and> - 0.1 < yaw (core_state (flight_core env (Some mpu2) (flight_core env (Some mpu1) g)))
                     - yaw (core_state (flight_core env (Some mpu1) g))
         \<and> yaw (core_state (flight_core env (Some mpu2) (flight_core env (Some mpu1) g)))
             - yaw (core_state (flight_core env (Some mpu1) g)) < - 0.08)"
proof (intro conjI impI)
  assume n: "\<not> (previous_core_mode g = DISARMED \<and> core_mode (core_setpoint g) \<noteq> DISARMED)"
  show "num_yaw_spins (core_state (flight_core env (Some mpu) g)) =
        (if - (fusedEuler_Z mpu - imu_yaw_on_takeoff (core_state g))
              + 2 * PI env * real_of_int (num_yaw_spins (core_state g))
              - last_yaw (core_state g) > 6
         then num_yaw_spins (core_state g) - 1
         else if - (fusedEuler_Z mpu - imu_yaw_on_takeoff (core_state g))
                   + 2 * PI env * real_of_int (num_yaw_spins (core_state g))
                   - last_yaw (core_state g) < - 6
         then num_yaw_spins (core_state g) + 1
         else num_yaw_spins (core_state g))"
    by (rule flight_core_yaw(1) [OF n])
  show "yaw (core_state (flight_core env (Some mpu) g)) =
          - (fusedEuler_Z mpu - imu_yaw_on_takeoff (core_state g))
          + 2 * PI env * real_of_int (num_yaw_spins (core_state (flight_core env (Some mpu) g)))"
    by (rule flight_core_yaw(2) [OF n])
next
  assume a: "core_mode (core_setpoint g) \<noteq> DISARMED \<and> previous_core_mode g \<noteq> DISARMED
       \<and> num_yaw_spins (core_state g) = 0
       \<and> yaw (core_state g) = - (3.10 - imu_yaw_on_takeoff (core_state g))
       \<and> last_yaw (core_state g) = yaw (core_state g)
       \<and> fusedEuler_Z mpu1 = 3.10 \<and> fusedEuler_Z mpu2 = - 3.10
       \<and> 3.14 < PI env \<and> PI env < 3.15"
  note w = yaw_wrap_two_cycles [where g = g and ?mpu1.0 = mpu1 and ?mpu2.0 = mpu2 and env = env,
      OF _ _ _ _ _ _ _ refl refl]
  show "num_yaw_spins (core_state (flight_core env (Some mpu2) (flight_core env (Some mpu1) g)))
           = - 1"
    using a by (intro w(2)) simp_all
  show d: "yaw (core_state (flight_core env (Some mpu2) (flight_core env (Some mpu1) g)))
             - yaw (core_state (flight_core env (Some mpu1) g)) = 6.2 - 2 * PI env"
    using a by (intro w(3)) simp_all
  show "- 0.1 < yaw (core_state (flight_core env (Some mpu2) (flight_core env (Some mpu1) g)))
                     - yaw (core_state (flight_core env (Some mpu1) g))"
    unfolding d using a by simp
  show "yaw (core_state (flight_core env (Some mpu2) (flight_core env (Some mpu1) g)))
             - yaw (core_state (flight_core env (Some mpu1) g)) < - 0.08"
    unfolding d using a by simp
qed

lemma heading_state_facts:
  "core_mode (core_setpoint heading_state) \<noteq> DISARMED"
  "previous_core_mode heading_state \<noteq> DISARMED"
  "num_yaw_spins (core_state heading_state) = 0"
  "yaw (core_state heading_state) = - (3.10 - imu_yaw_on_takeoff (core_state heading_state))"
  "last_yaw (core_state heading_state) = yaw (core_state heading_state)"
  "fusedEuler_Z mpu_before_wrap = 3.10"
  "fusedEuler_Z mpu_after_wrap = - 3.10"
  by (simp_all add: heading_state_def mpu_before_wrap_def mpu_after_wrap_def example_defs)

text \<open>
  Claim C5 as stated has the reported yaw change by about + 0.08 rad. With \<open>PI\<close> at
  3.14159265 it changes by - 0.0831853 rad.
\<close>

theorem yaw_wrap_sign_counterexample:
  "fusedEuler_Z mpu_before_wrap = 3.10 \<and> fusedEuler_Z mpu_after_wrap = - 3.10
   \<and> yaw (core_state (flight_core example_platform (Some mpu_before_wrap) heading_state)) = - 3.10
   \<and> yaw (core_state (flight_core example_platform (Some mpu_after_wrap)
            (flight_core example_platform (Some mpu_before_wrap) heading_state)))
       - yaw (core_state (flight_core example_platform (Some mpu_before_wrap) heading_state))
       = - 0.0831853"
proof -
  have n: "\<not> (previous_core_mode heading_state = DISARMED
              \<and> core_mode (core_setpoint heading_state) \<noteq> DISARMED)"
    using heading_state_facts(2) by simp
  have s1: "num_yaw_spins (core_state
              (flight_core example_platform (Some mpu_before_wrap) heading_state)) = 0"
    by (rule yaw_wrap_two_cycles(1) [OF heading_state_facts refl refl])
  have y1: "yaw (core_state (flight_core example_platform (Some mpu_before_wrap) heading_state))
              = - 3.10"
    using flight_core_yaw(2) [OF n, where mpu = mpu_before_wrap and env = example_platform]
    by (simp add: s1 heading_state_facts(6)) (simp add: heading_state_def example_defs)
  have "yaw (core_state (flight_core example_platform (Some mpu_after_wrap)
            (flight_core example_platform (Some mpu_before_wrap) heading_state)))
       - yaw (core_state (flight_core example_platform (Some mpu_before_wrap) heading_state))
       = 6.2 - 2 * PI example_platform"
    by (rule yaw_wrap_two_cycles(3) [OF heading_state_facts refl refl])
  also have "\<dots> = - 0.0831853" by (simp add: example_platform_def)
  finally show ?thesis using y1 heading_state_facts(6,7) by simp
qed

theorem yaw_unwrap_witness:
  "core_mode (core_setpoint heading_state) \<noteq> DISARMED
   \<and> previous_core_mode heading_state \<noteq> DISARMED
   \<and> num_yaw_spins (core_state heading_state) = 0
   \<and> yaw (core_state heading_state) = - (3.10 - imu_yaw_on_takeoff (core_state heading_state))
   \<and> last_yaw (core_state heading_state) = yaw (core_state heading_state)
   \<and> fusedEuler_Z mpu_before_wrap = 3.10 \<and> fusedEuler_Z mpu_after_wrap = - 3.10
   \<and> 3.14 < PI example_platform \<and> PI example_platform < 3.15
   \<and> num_yaw_spins (core_state (flight_core example_platform (Some mpu_after_wrap)
        (flight_core example_platform (Some mpu_before_wrap) heading_state))) = - 1
   \<and> yaw (core_state (flight_core example_platform (Some mpu_after_wrap)
            (flight_core example_platform (Some mpu_before_wrap) heading_state)))
       - yaw (core_state (flight_core example_platform (Some mpu_before_wrap) heading_state))
       < - 0.08"
proof -
  have p: "3.14 < PI example_platform \<and> PI example_platform < 3.15"
    by (simp add: example_platform_def)
  show ?thesis
    using yaw_unwrap [of heading_state example_platform mpu_before_wrap mpu_before_wrap
        mpu_after_wrap, THEN conjunct2]
      heading_state_facts p
    by simp
qed

subsection \<open>The arming sequence\<close>











text \<open>
  A C \<open>float\<close> is an integer over a power of two, so the throttle stick is never exactly
  0.9 or - 0.9.
\<close>

lemma two_power_mod_five: "(2 ^ k :: int) mod 5 \<in> {1, 2, 3, 4}"
proof (induction k)
  case 0
  then show ?case by simp
next
  case (Suc k)
  have "(2 ^ Suc k :: int) mod 5 = (2 * (2 ^ k mod 5)) mod 5"
    by (simp add: mod_mult_right_eq)
  with Suc show ?case by auto
qed

lemma nine_two_power_mod_five: "(9 * 2 ^ k :: int) mod 5 \<noteq> 0"
proof -
  have "(9 * 2 ^ k :: int) mod 5 = (9 * (2 ^ k mod 5)) mod 5"
    by (simp add: mod_mult_right_eq)
  with two_power_mod_five [of k] show ?thesis by auto
qed

lemma binary_fraction_not_nine_tenths:
  fixes m :: int and k :: nat
  shows "\<bar>real_of_int m / 2 ^ k\<bar> \<noteq> 0.9"
proof
  assume "\<bar>real_of_int m / 2 ^ k\<bar> = 0.9"
  then have "real_of_int \<bar>m\<bar> / 2 ^ k = 9 / 10" by simp
  then have "real_of_int \<bar>m\<bar> * 10 = 9 * 2 ^ k" by (simp add: field_simps)
  then have "real_of_int (\<bar>m\<bar> * 10) = real_of_int (9 * 2 ^ k)" by simp
  then have "\<bar>m\<bar> * 10 = 9 * 2 ^ k" by (simp only: of_int_eq_iff)
  then have "(9 * 2 ^ k :: int) mod 5 = (\<bar>m\<bar> * 10) mod 5" by simp
  also have "\<dots> = 0" by simp
  finally show False using nine_two_power_mod_five [of k] by simp
qed




text \<open>
  The restart: when the final check finds the vehicle tipped, the function is still
  blocked after the next level observation, and arms once the stick has gone up and down
  again.
\<close>

lemma restart_trace_blocked: "arming_poll WAIT_LEVEL restart_trace = None"
  by (simp add: restart_trace_def level_observation_def tipped_def ARM_TIP_THRESHOLD_def)

lemma restart_trace_resumed:
  "arming_poll WAIT_LEVEL
     (restart_trace @ [level_observation\<lparr>obs_throttle_stick := 1\<rparr>, level_observation])
   = Some ARMED"
  by (simp add: restart_trace_def level_observation_def tipped_def ARM_TIP_THRESHOLD_def)



subsection \<open>The loss-of-signal ladder\<close>

lemma DSM2_watcher_snoc:
  assumes "\<forall>p \<in> set (qs @ [q]). get_state p \<noteq> EXITING"
  shows "DSM2_watcher (qs @ [q]) s = DSM2_watcher_step q (DSM2_watcher qs s)"
  using assms by (induction qs arbitrary: s) simp_all

lemma signal_lost_step:
  assumes "is_new_dsm2_data p = 0" "using_dsm2 w \<noteq> 0"
    and "flight_mode (user_interface g) \<noteq> EMERGENCY_LAND"
    and mono: "e \<le> DSM2_LAND_TIMEOUT \<or> e \<le> timeout_secs w p"
    and cad: "core_mode (core_setpoint g) \<noteq> DISARMED \<and> timeout_secs w p > DSM2_DISARM_TIMEOUT
              \<longrightarrow> e > DSM2_LAND_TIMEOUT"
  shows "DSM2_watcher_step p (w, signal_lost_state e g) = (w, signal_lost_state (timeout_secs w p) g)"
proof -
  have lt: "DSM2_LAND_TIMEOUT < DSM2_DISARM_TIMEOUT" by (simp add: fly_constants)
  consider (a) "e \<le> DSM2_LAND_TIMEOUT"
    | (b) "e > DSM2_LAND_TIMEOUT"
          "e \<le> DSM2_DISARM_TIMEOUT \<or> core_mode (core_setpoint g) = DISARMED"
    | (c) "e > DSM2_DISARM_TIMEOUT" "core_mode (core_setpoint g) \<noteq> DISARMED"
    using lt by atomize_elim auto
  then show ?thesis
  proof cases
    case a
    then have s: "signal_lost_state e g = g" by (simp add: signal_lost_state_def)
    from a cad have nd: "\<not> (core_mode (core_setpoint g) \<noteq> DISARMED
                            \<and> timeout_secs w p > DSM2_DISARM_TIMEOUT)" by auto
    show ?thesis
      unfolding s using assms(1,2,3) nd lt
      by (auto simp: DSM2_watcher_step_def signal_lost_state_def emergency_land_def
          timeout_secs_def Let_def)
  next
    case b
    then have s: "signal_lost_state e g = emergency_land g"
      by (auto simp: signal_lost_state_def)
    from b mono have e': "timeout_secs w p > DSM2_LAND_TIMEOUT" by auto
    have fm: "flight_mode (user_interface (emergency_land g)) = EMERGENCY_LAND"
      "core_setpoint (emergency_land g) = core_setpoint g"
      by (simp_all add: emergency_land_def)
    show ?thesis
      unfolding s using assms(1,2) e' fm
      by (auto simp: DSM2_watcher_step_def signal_lost_state_def timeout_secs_def Let_def)
  next
    case c
    then have s: "signal_lost_state e g = disarm (emergency_land g)"
      using lt by (auto simp: signal_lost_state_def)
    from c mono lt have e': "timeout_secs w p > DSM2_DISARM_TIMEOUT" by auto
    have fm: "flight_mode (user_interface (disarm (emergency_land g))) = EMERGENCY_LAND"
      "core_mode (core_setpoint (disarm (emergency_land g))) = DISARMED"
      by (simp_all add: emergency_land_def disarm_def)
    show ?thesis
      unfolding s using assms(1,2) e' c(2) fm lt
      by (auto simp: DSM2_watcher_step_def signal_lost_state_def timeout_secs_def Let_def)
  qed
qed

lemma signal_lost_state_start: "signal_lost_state DSM2_LAND_TIMEOUT g = g"
  by (simp add: signal_lost_state_def)

lemma watcher_run_state:
  assumes "using_dsm2 w \<noteq> 0"
    and "\<forall>p \<in> set ps. is_new_dsm2_data p = 0 \<and> get_state p \<noteq> EXITING"
    and "sorted (map current_time ps)"
    and "flight_mode (user_interface g) \<noteq> EMERGENCY_LAND"
    and "core_mode (core_setpoint g) \<noteq> DISARMED \<longrightarrow>
           (\<forall>n < length ps. timeout_secs w (ps ! n) > DSM2_DISARM_TIMEOUT \<longrightarrow>
              (\<exists>m < n. timeout_secs w (ps ! m) > DSM2_LAND_TIMEOUT
                       \<and> timeout_secs w (ps ! m) \<le> DSM2_DISARM_TIMEOUT))"
  shows "DSM2_watcher ps (w, g) =
           (w, signal_lost_state (if ps = [] then DSM2_LAND_TIMEOUT else timeout_secs w (last ps)) g)"
  using assms
proof (induction ps rule: rev_induct)
  case Nil
  then show ?case by (simp add: signal_lost_state_start)
next
  case (snoc p qs)
  let ?e = "if qs = [] then DSM2_LAND_TIMEOUT else timeout_secs w (last qs)"
  have all: "\<forall>q \<in> set qs. is_new_dsm2_data q = 0 \<and> get_state q \<noteq> EXITING"
    and p: "is_new_dsm2_data p = 0" "get_state p \<noteq> EXITING"
    using snoc.prems(2) by simp_all
  have srt: "sorted (map current_time qs)"
    and le: "\<forall>q \<in> set qs. current_time q \<le> current_time p"
    using snoc.prems(3) by (simp_all add: sorted_append)
  have cad: "core_mode (core_setpoint g) \<noteq> DISARMED \<longrightarrow>
           (\<forall>n < length qs. timeout_secs w (qs ! n) > DSM2_DISARM_TIMEOUT \<longrightarrow>
              (\<exists>m < n. timeout_secs w (qs ! m) > DSM2_LAND_TIMEOUT
                       \<and> timeout_secs w (qs ! m) \<le> DSM2_DISARM_TIMEOUT))"
  proof (intro impI allI)
    fix n
    assume a: "core_mode (core_setpoint g) \<noteq> DISARMED" "n < length qs"
      "timeout_secs w (qs ! n) > DSM2_DISARM_TIMEOUT"
    then have "n < length (qs @ [p])" "timeout_secs w ((qs @ [p]) ! n) > DSM2_DISARM_TIMEOUT"
      by (simp_all add: nth_append)
    with snoc.prems(5) a(1) obtain m where m: "m < n"
      "timeout_secs w ((qs @ [p]) ! m) > DSM2_LAND_TIMEOUT"
      "timeout_secs w ((qs @ [p]) ! m) \<le> DSM2_DISARM_TIMEOUT" by blast
    then have "(qs @ [p]) ! m = qs ! m" using a(2) by (simp add: nth_append)
    with m show "\<exists>m < n. timeout_secs w (qs ! m) > DSM2_LAND_TIMEOUT
                       \<and> timeout_secs w (qs ! m) \<le> DSM2_DISARM_TIMEOUT" by auto
  qed
  have ih: "DSM2_watcher qs (w, g) = (w, signal_lost_state ?e g)"
    by (rule snoc.IH [OF snoc.prems(1) all srt snoc.prems(4) cad])
  have mono: "?e \<le> DSM2_LAND_TIMEOUT \<or> ?e \<le> timeout_secs w p"
  proof (cases "qs = []")
    case True
    then show ?thesis by simp
  next
    case False
    then have "last qs \<in> set qs" by simp
    with le have "current_time (last qs) \<le> current_time p" by blast
    then show ?thesis using False by (simp add: timeout_secs_def)
  qed
  have late: "core_mode (core_setpoint g) \<noteq> DISARMED \<and> timeout_secs w p > DSM2_DISARM_TIMEOUT
              \<longrightarrow> ?e > DSM2_LAND_TIMEOUT"
  proof
    assume a: "core_mode (core_setpoint g) \<noteq> DISARMED \<and> timeout_secs w p > DSM2_DISARM_TIMEOUT"
    have "length qs < length (qs @ [p])" "(qs @ [p]) ! length qs = p" by simp_all
    with snoc.prems(5) a obtain m where m: "m < length qs"
      "timeout_secs w ((qs @ [p]) ! m) > DSM2_LAND_TIMEOUT" by metis
    then have ne: "qs \<noteq> []" and qm: "timeout_secs w (qs ! m) > DSM2_LAND_TIMEOUT"
      by (auto simp: nth_append)
    have "map current_time qs ! m \<le> map current_time qs ! (length qs - 1)"
      using srt m(1) by (intro sorted_nth_mono) simp_all
    then have "current_time (qs ! m) \<le> current_time (last qs)"
      using m(1) ne by (simp add: last_conv_nth)
    then have "timeout_secs w (qs ! m) \<le> timeout_secs w (last qs)" by (simp add: timeout_secs_def)
    with qm show "?e > DSM2_LAND_TIMEOUT" using ne by simp
  qed
  have "DSM2_watcher (qs @ [p]) (w, g) = DSM2_watcher_step p (DSM2_watcher qs (w, g))"
    using all p(2) by (intro DSM2_watcher_snoc) auto
  also have "\<dots> = (w, signal_lost_state (timeout_secs w p) g)"
    unfolding ih by (rule signal_lost_step [OF p(1) snoc.prems(1) snoc.prems(4) mono late])
  finally show ?case by simp
qed

lemma watcher_prefix_state:
  assumes "using_dsm2 w \<noteq> 0"
    and "\<forall>p \<in> set ps. is_new_dsm2_data p = 0 \<and> get_state p \<noteq> EXITING"
    and "sorted (map current_time ps)"
    and "flight_mode (user_interface g) \<noteq> EMERGENCY_LAND"
    and "core_mode (core_setpoint g) \<noteq> DISARMED \<longrightarrow>
           (\<forall>n < length ps. timeout_secs w (ps ! n) > DSM2_DISARM_TIMEOUT \<longrightarrow>
              (\<exists>m < n. timeout_secs w (ps ! m) > DSM2_LAND_TIMEOUT
                       \<and> timeout_secs w (ps ! m) \<le> DSM2_DISARM_TIMEOUT))"
    and "0 < n" "n \<le> length ps"
  shows "DSM2_watcher (take n ps) (w, g) =
           (w, signal_lost_state (timeout_secs w (ps ! (n - 1))) g)"
proof -
  have a2: "\<forall>p \<in> set (take n ps). is_new_dsm2_data p = 0 \<and> get_state p \<noteq> EXITING"
    using assms(2) by (auto dest: in_set_takeD)
  have a3: "sorted (map current_time (take n ps))"
    using assms(3) by (simp add: take_map [symmetric])
  have a5: "core_mode (core_setpoint g) \<noteq> DISARMED \<longrightarrow>
           (\<forall>k < length (take n ps). timeout_secs w (take n ps ! k) > DSM2_DISARM_TIMEOUT \<longrightarrow>
              (\<exists>m < k. timeout_secs w (take n ps ! m) > DSM2_LAND_TIMEOUT
                       \<and> timeout_secs w (take n ps ! m) \<le> DSM2_DISARM_TIMEOUT))"
  proof (intro impI allI)
    fix k
    assume a: "core_mode (core_setpoint g) \<noteq> DISARMED" "k < length (take n ps)"
      "timeout_secs w (take n ps ! k) > DSM2_DISARM_TIMEOUT"
    then have k: "k < n" "k < length ps" "timeout_secs w (ps ! k) > DSM2_DISARM_TIMEOUT"
      by simp_all
    with assms(5) a(1) obtain m where "m < k" "timeout_secs w (ps ! m) > DSM2_LAND_TIMEOUT"
      "timeout_secs w (ps ! m) \<le> DSM2_DISARM_TIMEOUT" by blast
    then show "\<exists>m < k. timeout_secs w (take n ps ! m) > DSM2_LAND_TIMEOUT
                       \<and> timeout_secs w (take n ps ! m) \<le> DSM2_DISARM_TIMEOUT"
      using k(1) by (intro exI [of _ m]) simp
  qed
  have ne: "take n ps \<noteq> []" using assms(6,7) by auto
  have "last (take n ps) = ps ! (n - 1)"
    using assms(6,7) ne by (simp add: last_conv_nth min_def)
  then show ?thesis
    using watcher_run_state [OF assms(1) a2 a3 assms(4) a5] ne by simp
qed

text \<open>
  Claim C7, as the code has it. Take a run of the radio thread after the first frame, in
  which no new frame arrives and the flight mode is not \<open>EMERGENCY_LAND\<close> at the start.
  The clock is monotonic. The code tests the disarm timeout before the land timeout, so
  the order of the two steps holds for the runs in which the thread, which polls about
  every 10 ms, makes a pass inside the landing window (more than \<open>DSM2_LAND_TIMEOUT\<close> and
  at most \<open>DSM2_DISARM_TIMEOUT\<close> since the last frame) before any pass beyond the disarm
  timeout. For such a run, after every pass: up to the
  land timeout nothing has changed; beyond it the flight mode is \<open>EMERGENCY_LAND\<close> with
  the throttle stick at - 1 and the other sticks at 0, set once and not touched again;
  up to the disarm timeout the setpoint is as it was; and beyond it an armed core is
  \<open>DISARMED\<close>, after an earlier pass that entered \<open>EMERGENCY_LAND\<close> with the core still
  armed.
\<close>

theorem loss_of_signal_ladder:
  assumes "using_dsm2 w \<noteq> 0"
    and "\<forall>p \<in> set ps. is_new_dsm2_data p = 0 \<and> get_state p \<noteq> EXITING"
    and "sorted (map current_time ps)"
    and "flight_mode (user_interface g) \<noteq> EMERGENCY_LAND"
    and "core_mode (core_setpoint g) \<noteq> DISARMED \<longrightarrow>
           (\<forall>n < length ps. timeout_secs w (ps ! n) > DSM2_DISARM_TIMEOUT \<longrightarrow>
              (\<exists>m < n. timeout_secs w (ps ! m) > DSM2_LAND_TIMEOUT
                       \<and> timeout_secs w (ps ! m) \<le> DSM2_DISARM_TIMEOUT))"
    and "0 < n" "n \<le> length ps"
  shows "(timeout_secs w (ps ! (n - 1)) \<le> DSM2_LAND_TIMEOUT \<longrightarrow>
            DSM2_watcher (take n ps) (w, g) = (w, g))
         \<and> (timeout_secs w (ps ! (n - 1)) > DSM2_LAND_TIMEOUT \<longrightarrow>
            user_interface (snd (DSM2_watcher (take n ps) (w, g))) =
              (user_interface g)\<lparr>flight_mode := EMERGENCY_LAND, throttle_stick := - 1,
                                  roll_stick := 0, pitch_stick := 0, yaw_stick := 0\<rparr>)
         \<and> (timeout_secs w (ps ! (n - 1)) \<le> DSM2_DISARM_TIMEOUT \<longrightarrow>
            core_setpoint (snd (DSM2_watcher (take n ps) (w, g))) = core_setpoint g)
         \<and> (timeout_secs w (ps ! (n - 1)) > DSM2_DISARM_TIMEOUT
              \<and> core_mode (core_setpoint g) \<noteq> DISARMED \<longrightarrow>
            core_mode (core_setpoint (snd (DSM2_watcher (take n ps) (w, g)))) = DISARMED
            \<and> (\<exists>m. 0 < m \<and> m < n
                 \<and> flight_mode (user_interface (snd (DSM2_watcher (take m ps) (w, g))))
                     = EMERGENCY_LAND
                 \<and> core_mode (core_setpoint (snd (DSM2_watcher (take m ps) (w, g))))
                     \<noteq> DISARMED))"
proof -
  have lt: "DSM2_LAND_TIMEOUT < DSM2_DISARM_TIMEOUT" by (simp add: fly_constants)
  note st = watcher_prefix_state [OF assms(1-5)]
  let ?e = "timeout_secs w (ps ! (n - 1))"
  have sn: "DSM2_watcher (take n ps) (w, g) = (w, signal_lost_state ?e g)"
    by (rule st [OF assms(6,7)])
  have c1: "?e \<le> DSM2_LAND_TIMEOUT \<longrightarrow> DSM2_watcher (take n ps) (w, g) = (w, g)"
    by (simp add: sn signal_lost_state_def)
  have c2: "?e > DSM2_LAND_TIMEOUT \<longrightarrow>
            user_interface (snd (DSM2_watcher (take n ps) (w, g))) =
              (user_interface g)\<lparr>flight_mode := EMERGENCY_LAND, throttle_stick := - 1,
                                  roll_stick := 0, pitch_stick := 0, yaw_stick := 0\<rparr>"
    by (simp add: sn signal_lost_state_def emergency_land_def disarm_def)
  have c3: "?e \<le> DSM2_DISARM_TIMEOUT \<longrightarrow>
            core_setpoint (snd (DSM2_watcher (take n ps) (w, g))) = core_setpoint g"
    by (simp add: sn signal_lost_state_def emergency_land_def)
  have c4: "core_mode (core_setpoint (snd (DSM2_watcher (take n ps) (w, g)))) = DISARMED
            \<and> (\<exists>m. 0 < m \<and> m < n
                 \<and> flight_mode (user_interface (snd (DSM2_watcher (take m ps) (w, g))))
                     = EMERGENCY_LAND
                 \<and> core_mode (core_setpoint (snd (DSM2_watcher (take m ps) (w, g))))
                     \<noteq> DISARMED)"
    if a: "?e > DSM2_DISARM_TIMEOUT \<and> core_mode (core_setpoint g) \<noteq> DISARMED"
  proof
    show "core_mode (core_setpoint (snd (DSM2_watcher (take n ps) (w, g)))) = DISARMED"
      using a lt by (simp add: sn signal_lost_state_def disarm_def)
    have "n - 1 < length ps" using assms(6,7) by simp
    with assms(5) a obtain k where k: "k < n - 1"
      "timeout_secs w (ps ! k) > DSM2_LAND_TIMEOUT"
      "timeout_secs w (ps ! k) \<le> DSM2_DISARM_TIMEOUT" by blast
    have m: "0 < Suc k" "Suc k \<le> length ps" "Suc k < n" using k(1) assms(7) by simp_all
    have "DSM2_watcher (take (Suc k) ps) (w, g) = (w, emergency_land g)"
      using st [OF m(1,2)] k(2,3) by (simp add: signal_lost_state_def)
    then have "flight_mode (user_interface (snd (DSM2_watcher (take (Suc k) ps) (w, g))))
                     = EMERGENCY_LAND
                 \<and> core_mode (core_setpoint (snd (DSM2_watcher (take (Suc k) ps) (w, g))))
                     \<noteq> DISARMED"
      using a by (simp add: emergency_land_def)
    then show "\<exists>m. 0 < m \<and> m < n
                 \<and> flight_mode (user_interface (snd (DSM2_watcher (take m ps) (w, g))))
                     = EMERGENCY_LAND
                 \<and> core_mode (core_setpoint (snd (DSM2_watcher (take m ps) (w, g))))
                     \<noteq> DISARMED"
      using m(1,3) by blast
  qed
  show ?thesis using c1 c2 c3 c4 by blast
qed

lemma signal_loss_polls_facts:
  "using_dsm2 example_locals \<noteq> 0"
  "\<forall>p \<in> set signal_loss_polls. is_new_dsm2_data p = 0 \<and> get_state p \<noteq> EXITING"
  "sorted (map current_time signal_loss_polls)"
  "flight_mode (user_interface example_state) \<noteq> EMERGENCY_LAND"
  "core_mode (core_setpoint example_state) \<noteq> DISARMED \<longrightarrow>
     (\<forall>n < length signal_loss_polls.
        timeout_secs example_locals (signal_loss_polls ! n) > DSM2_DISARM_TIMEOUT \<longrightarrow>
        (\<exists>m < n. timeout_secs example_locals (signal_loss_polls ! m) > DSM2_LAND_TIMEOUT
                 \<and> timeout_secs example_locals (signal_loss_polls ! m) \<le> DSM2_DISARM_TIMEOUT))"
proof -
  show "using_dsm2 example_locals \<noteq> 0" by (simp add: example_locals_def)
  show "\<forall>p \<in> set signal_loss_polls. is_new_dsm2_data p = 0 \<and> get_state p \<noteq> EXITING"
    by (simp add: signal_loss_polls_def quiet_poll_def)
  show "sorted (map current_time signal_loss_polls)"
    by (simp add: signal_loss_polls_def quiet_poll_def)
  show "flight_mode (user_interface example_state) \<noteq> EMERGENCY_LAND"
    by (simp add: example_defs)
  have t: "timeout_secs example_locals (signal_loss_polls ! 0) = 0.01"
    "timeout_secs example_locals (signal_loss_polls ! 1) = 0.31"
    "timeout_secs example_locals (signal_loss_polls ! 2) = 5.01"
    "timeout_secs example_locals (signal_loss_polls ! Suc 0) = 0.31"
    by (simp_all add: timeout_secs_def signal_loss_polls_def quiet_poll_def example_locals_def)
  have "\<exists>m < n. timeout_secs example_locals (signal_loss_polls ! m) > DSM2_LAND_TIMEOUT
                 \<and> timeout_secs example_locals (signal_loss_polls ! m) \<le> DSM2_DISARM_TIMEOUT"
    if "n < length signal_loss_polls"
      "timeout_secs example_locals (signal_loss_polls ! n) > DSM2_DISARM_TIMEOUT" for n
  proof -
    from that(1) have "n = 0 \<or> n = 1 \<or> n = 2" by (auto simp: signal_loss_polls_def)
    with that(2) t have n: "n = 2" by (auto simp: fly_constants)
    have "(1::nat) < 2 \<and> timeout_secs example_locals (signal_loss_polls ! 1) > DSM2_LAND_TIMEOUT
                 \<and> timeout_secs example_locals (signal_loss_polls ! 1) \<le> DSM2_DISARM_TIMEOUT"
      by (simp add: t fly_constants)
    then show ?thesis unfolding n by blast
  qed
  then show "core_mode (core_setpoint example_state) \<noteq> DISARMED \<longrightarrow>
     (\<forall>n < length signal_loss_polls.
        timeout_secs example_locals (signal_loss_polls ! n) > DSM2_DISARM_TIMEOUT \<longrightarrow>
        (\<exists>m < n. timeout_secs example_locals (signal_loss_polls ! m) > DSM2_LAND_TIMEOUT
                 \<and> timeout_secs example_locals (signal_loss_polls ! m) \<le> DSM2_DISARM_TIMEOUT))"
    by blast
qed

theorem loss_of_signal_ladder_witness:
  "using_dsm2 example_locals \<noteq> 0
   \<and> flight_mode (user_interface example_state) \<noteq> EMERGENCY_LAND
   \<and> core_mode (core_setpoint example_state) \<noteq> DISARMED
   \<and> timeout_secs example_locals (signal_loss_polls ! 0) = 0.01
   \<and> timeout_secs example_locals (signal_loss_polls ! 1) = 0.31
   \<and> timeout_secs example_locals (signal_loss_polls ! 2) = 5.01
   \<and> DSM2_watcher (take 1 signal_loss_polls) (example_locals, example_state)
       = (example_locals, example_state)
   \<and> user_interface (snd (DSM2_watcher (take 2 signal_loss_polls)
        (example_locals, example_state)))
       = (user_interface example_state)
           \<lparr>flight_mode := EMERGENCY_LAND, throttle_stick := - 1,
            roll_stick := 0, pitch_stick := 0, yaw_stick := 0\<rparr>
   \<and> core_setpoint (snd (DSM2_watcher (take 2 signal_loss_polls)
        (example_locals, example_state))) = core_setpoint example_state
   \<and> core_mode (core_setpoint (snd (DSM2_watcher (take 3 signal_loss_polls)
        (example_locals, example_state)))) = DISARMED"
proof -
  have t: "timeout_secs example_locals (signal_loss_polls ! 0) = 0.01"
    "timeout_secs example_locals (signal_loss_polls ! 1) = 0.31"
    "timeout_secs example_locals (signal_loss_polls ! 2) = 5.01"
    "timeout_secs example_locals (signal_loss_polls ! Suc 0) = 0.31"
    by (simp_all add: timeout_secs_def signal_loss_polls_def quiet_poll_def example_locals_def)
  have len: "length signal_loss_polls = 3" by (simp add: signal_loss_polls_def)
  have armed: "core_mode (core_setpoint example_state) \<noteq> DISARMED" by (simp add: example_defs)
  note l = loss_of_signal_ladder [OF signal_loss_polls_facts]
  have n1: "DSM2_watcher (take 1 signal_loss_polls) (example_locals, example_state)
       = (example_locals, example_state)"
    using l [of 1] by (simp add: len t fly_constants)
  have n2: "user_interface (snd (DSM2_watcher (take 2 signal_loss_polls)
        (example_locals, example_state)))
       = (user_interface example_state)
           \<lparr>flight_mode := EMERGENCY_LAND, throttle_stick := - 1,
            roll_stick := 0, pitch_stick := 0, yaw_stick := 0\<rparr>
     \<and> core_setpoint (snd (DSM2_watcher (take 2 signal_loss_polls)
        (example_locals, example_state))) = core_setpoint example_state"
    using l [of 2] by (simp add: len t fly_constants)
  have n3: "core_mode (core_setpoint (snd (DSM2_watcher (take 3 signal_loss_polls)
        (example_locals, example_state)))) = DISARMED"
    using l [of 3] armed by (simp add: len t fly_constants)
  show ?thesis
    using n1 n2 n3 t armed signal_loss_polls_facts(1,4) by simp
qed

text \<open>
  Claim C7 as stated is for every run. When the first passes without a frame come 6 s
  and 6.01 s after the last frame, the first one disarms the core with the flight mode
  still \<open>USER_ATTITUDE\<close>, and \<open>EMERGENCY_LAND\<close> is entered only by the second.
\<close>

theorem late_disarm_counterexample:
  "using_dsm2 example_locals = 1
   \<and> is_new_dsm2_data (late_polls ! 0) = 0 \<and> is_new_dsm2_data (late_polls ! 1) = 0
   \<and> timeout_secs example_locals (late_polls ! 0) = 6
   \<and> timeout_secs example_locals (late_polls ! 1) = 6.01
   \<and> flight_mode (user_interface example_state) = USER_ATTITUDE
   \<and> core_mode (core_setpoint example_state) = ATTITUDE
   \<and> core_mode (core_setpoint (snd (DSM2_watcher (take 1 late_polls)
         (example_locals, example_state)))) = DISARMED
   \<and> flight_mode (user_interface (snd (DSM2_watcher (take 1 late_polls)
         (example_locals, example_state)))) = USER_ATTITUDE
   \<and> flight_mode (user_interface (snd (DSM2_watcher (take 2 late_polls)
         (example_locals, example_state)))) = EMERGENCY_LAND"
  by (simp add: late_polls_def quiet_poll_def example_locals_def timeout_secs_def
      DSM2_watcher_step_def disarm_def Let_def example_state_def example_setpoint_def
      example_user_interface_def DSM2_LAND_TIMEOUT_def DSM2_DISARM_TIMEOUT_def)

end
